theory Spec2Isabelle
  imports Complex_Main "HOL-Library.Word" "HOL-Library.Monad_Syntax"
begin

unbundle bit_operations_syntax

section \<open>C arithmetic of the flight computer\<close>

subsection \<open>Floating-point values\<close>

text \<open>
  Every value of the C types \<^verbatim>\<open>float\<close> (binary32) and \<^verbatim>\<open>double\<close> (binary64) is a
  dyadic rational number, an infinity or a NaN. The two zeros compare equal in C and are
  identified here; NaN payloads are not distinguished.
\<close>

datatype ieee = Fin real | PInf | NInf | NaN

type_synonym cfloat = ieee
type_synonym cdouble = ieee

text \<open>
  Round to the nearest integer, ties to even: \<open>tie_even f d\<close> decides between the integer
  \<open>f\<close> below and the one above, from the fractional part \<open>d\<close>.
\<close>

definition tie_even :: "int \<Rightarrow> real \<Rightarrow> int" where
  "tie_even f d =
     (if d < 1 / 2 then f else if 1 / 2 < d then f + 1 else if even f then f else f + 1)"

definition half_even :: "real \<Rightarrow> int" where
  "half_even x = tie_even \<lfloor>x\<rfloor> (x - of_int \<lfloor>x\<rfloor>)"

text \<open>The number of binary digits of a positive integer.\<close>

function bitlen :: "int \<Rightarrow> int" where
  "bitlen n = (if 0 < n then bitlen (n div 2) + 1 else 0)"
  by pat_completeness auto
termination
  by (relation "measure nat") auto

declare bitlen.simps [simp del]

text \<open>\<open>ilog2 a\<close> is the integer \<open>e\<close> with \<open>2 ^ e \<le> a < 2 ^ (e + 1)\<close>, for \<open>0 < a\<close>.\<close>

definition ilog2 :: "real \<Rightarrow> int" where
  "ilog2 a = (if 1 \<le> a then bitlen \<lfloor>a\<rfloor> - 1 else - bitlen (\<lceil>1 / a\<rceil> - 1))"

definition scale2 :: "real \<Rightarrow> int \<Rightarrow> real" where
  "scale2 a e = (if 0 \<le> e then a * 2 ^ nat e else a / 2 ^ nat (- e))"

text \<open>
  \<open>fround p emax r\<close> rounds the number \<open>r\<close> to the binary format with \<open>p\<close> significand
  bits and largest exponent \<open>emax\<close> (round to nearest, ties to even, the default rounding
  mode). The unit in the last place is \<open>2 ^ q\<close>, where \<open>q\<close> follows the binary exponent
  of \<open>r\<close> and is bounded below by the subnormal spacing; \<open>round_at q\<close> is the nearest
  multiple of \<open>2 ^ q\<close>; and a rounded magnitude of \<open>2 ^ (emax + 1)\<close> or more overflows to an
  infinity.
\<close>

definition round_at :: "int \<Rightarrow> real \<Rightarrow> real" where
  "round_at q a = scale2 (of_int (half_even (scale2 a (- q)))) q"

definition with_overflow :: "int \<Rightarrow> bool \<Rightarrow> real \<Rightarrow> ieee" where
  "with_overflow emax pos v =
     (if 2 ^ nat (emax + 1) \<le> v then (if pos then PInf else NInf)
      else Fin (if pos then v else - v))"

definition fround :: "nat \<Rightarrow> int \<Rightarrow> real \<Rightarrow> ieee" where
  "fround p emax r =
     (if r = 0 then Fin 0
      else with_overflow emax (0 < r)
             (round_at (min (max (ilog2 \<bar>r\<bar>) (1 - emax)) emax - (int p - 1)) \<bar>r\<bar>))"

definition rnd32 :: "real \<Rightarrow> cfloat" where
  "rnd32 = fround 24 127"

definition rnd64 :: "real \<Rightarrow> cdouble" where
  "rnd64 = fround 53 1023"

text \<open>
  The arithmetic operators, parametrised by the rounding of the result type. Every
  operation is rounded on its own to the type of its operands: no operation is fused with
  another and none is carried out in a wider format. Special values follow IEEE 754: an
  infinity absorbs finite operands, and the indeterminate forms (\<open>\<infinity> - \<infinity>\<close>, \<open>0 * \<infinity>\<close>,
  \<open>0 / 0\<close>, \<open>\<infinity> / \<infinity>\<close>) and every operation on a NaN give NaN. A nonzero finite value
  divided by zero gives the infinity of the dividend's sign (the zero is taken as positive,
  the sign of zero not being modelled).
\<close>

fun fadd :: "(real \<Rightarrow> ieee) \<Rightarrow> ieee \<Rightarrow> ieee \<Rightarrow> ieee" where
  "fadd rnd (Fin a) (Fin b) = rnd (a + b)"
| "fadd rnd NaN _ = NaN"
| "fadd rnd _ NaN = NaN"
| "fadd rnd PInf NInf = NaN"
| "fadd rnd NInf PInf = NaN"
| "fadd rnd PInf _ = PInf"
| "fadd rnd NInf _ = NInf"
| "fadd rnd _ PInf = PInf"
| "fadd rnd _ NInf = NInf"

fun fneg :: "ieee \<Rightarrow> ieee" where
  "fneg (Fin a) = Fin (- a)"
| "fneg PInf = NInf"
| "fneg NInf = PInf"
| "fneg NaN = NaN"

definition fsub :: "(real \<Rightarrow> ieee) \<Rightarrow> ieee \<Rightarrow> ieee \<Rightarrow> ieee" where
  "fsub rnd x y = fadd rnd x (fneg y)"

text \<open>The sign of a value: \<open>Some True\<close> positive, \<open>Some False\<close> negative, \<open>None\<close> zero or NaN.\<close>

fun fsign :: "ieee \<Rightarrow> bool option" where
  "fsign (Fin a) = (if 0 < a then Some True else if a < 0 then Some False else None)"
| "fsign PInf = Some True"
| "fsign NInf = Some False"
| "fsign NaN = None"

definition signed_inf :: "bool \<Rightarrow> ieee" where
  "signed_inf pos = (if pos then PInf else NInf)"

fun fmul :: "(real \<Rightarrow> ieee) \<Rightarrow> ieee \<Rightarrow> ieee \<Rightarrow> ieee" where
  "fmul rnd (Fin a) (Fin b) = rnd (a * b)"
| "fmul rnd NaN _ = NaN"
| "fmul rnd _ NaN = NaN"
| "fmul rnd x y =
     (case (fsign x, fsign y) of
        (Some s, Some t) \<Rightarrow> signed_inf (s = t)
      | _ \<Rightarrow> NaN)"

fun fdiv :: "(real \<Rightarrow> ieee) \<Rightarrow> ieee \<Rightarrow> ieee \<Rightarrow> ieee" where
  "fdiv rnd (Fin a) (Fin b) =
     (if b = 0 then (if a = 0 then NaN else signed_inf (0 < a)) else rnd (a / b))"
| "fdiv rnd NaN _ = NaN"
| "fdiv rnd _ NaN = NaN"
| "fdiv rnd (Fin a) _ = Fin 0"
| "fdiv rnd x (Fin b) =
     (case fsign x of Some s \<Rightarrow> signed_inf (s = (0 \<le> b)) | None \<Rightarrow> NaN)"
| "fdiv rnd _ _ = NaN"

text \<open>The comparison operators: every comparison with a NaN is false.\<close>

fun flt :: "ieee \<Rightarrow> ieee \<Rightarrow> bool" where
  "flt NaN _ = False"
| "flt _ NaN = False"
| "flt (Fin a) (Fin b) = (a < b)"
| "flt NInf NInf = False"
| "flt NInf _ = True"
| "flt _ NInf = False"
| "flt PInf _ = False"
| "flt _ PInf = True"

definition fgt :: "ieee \<Rightarrow> ieee \<Rightarrow> bool" where
  "fgt x y = flt y x"

fun fle :: "ieee \<Rightarrow> ieee \<Rightarrow> bool" where
  "fle NaN _ = False"
| "fle _ NaN = False"
| "fle x y = (\<not> flt y x)"

definition fge :: "ieee \<Rightarrow> ieee \<Rightarrow> bool" where
  "fge x y = fle y x"

fun isnan :: "ieee \<Rightarrow> bool" where
  "isnan NaN = True"
| "isnan _ = False"

fun fabsf :: "cfloat \<Rightarrow> cfloat" where
  "fabsf (Fin a) = Fin \<bar>a\<bar>"
| "fabsf PInf = PInf"
| "fabsf NInf = PInf"
| "fabsf NaN = NaN"

fun is_finite :: "ieee \<Rightarrow> bool" where
  "is_finite (Fin a) = True"
| "is_finite _ = False"

abbreviation addf :: "cfloat \<Rightarrow> cfloat \<Rightarrow> cfloat" where "addf \<equiv> fadd rnd32"
abbreviation subf :: "cfloat \<Rightarrow> cfloat \<Rightarrow> cfloat" where "subf \<equiv> fsub rnd32"
abbreviation mulf :: "cfloat \<Rightarrow> cfloat \<Rightarrow> cfloat" where "mulf \<equiv> fmul rnd32"
abbreviation divf :: "cfloat \<Rightarrow> cfloat \<Rightarrow> cfloat" where "divf \<equiv> fdiv rnd32"
abbreviation subd :: "cdouble \<Rightarrow> cdouble \<Rightarrow> cdouble" where "subd \<equiv> fsub rnd64"
abbreviation muld :: "cdouble \<Rightarrow> cdouble \<Rightarrow> cdouble" where "muld \<equiv> fmul rnd64"
abbreviation divd :: "cdouble \<Rightarrow> cdouble \<Rightarrow> cdouble" where "divd \<equiv> fdiv rnd64"

subsection \<open>Conversions\<close>

text \<open>
  A \<^verbatim>\<open>double\<close> passed or assigned to a \<^verbatim>\<open>float\<close> is rounded; a \<^verbatim>\<open>float\<close> promoted to
  \<^verbatim>\<open>double\<close> keeps its value, so promotions are not written in the model.
\<close>

fun d2f :: "cdouble \<Rightarrow> cfloat" where
  "d2f (Fin r) = rnd32 r"
| "d2f x = x"

text \<open>
  Integers of 16 bits convert to \<^verbatim>\<open>float\<close> exactly (24 significand bits).
\<close>

definition u16_to_float :: "16 word \<Rightarrow> cfloat" where
  "u16_to_float w = Fin (of_int (uint w))"

definition i16_to_float :: "16 word \<Rightarrow> cfloat" where
  "i16_to_float w = Fin (of_int (sint w))"

definition trunc :: "real \<Rightarrow> int" where
  "trunc r = (if 0 \<le> r then \<lfloor>r\<rfloor> else \<lceil>r\<rceil>)"

subsection \<open>What the program takes from its platform\<close>

text \<open>
  The single-precision functions of the C library (\<^verbatim>\<open>math.h\<close>) are not part of the
  program; they are parameters of the model. So is the value that a conversion from
  \<^verbatim>\<open>float\<close> to an integer type yields when the truncated value does not fit, which C
  leaves undefined.
\<close>

record platform =
  sinf :: "cfloat \<Rightarrow> cfloat"
  cosf :: "cfloat \<Rightarrow> cfloat"
  sqrtf :: "cfloat \<Rightarrow> cfloat"
  atan2f :: "cfloat \<Rightarrow> cfloat \<Rightarrow> cfloat"
  conv_undef :: "cfloat \<Rightarrow> int"

text \<open>Conversion to \<^verbatim>\<open>uint16_t\<close> and \<^verbatim>\<open>int16_t\<close>: the fractional part is discarded.\<close>

definition float_to_u16 :: "platform \<Rightarrow> cfloat \<Rightarrow> 16 word" where
  "float_to_u16 pf x =
     (case x of
        Fin r \<Rightarrow> if - 1 < r \<and> r < 65536 then word_of_int (trunc r)
                 else word_of_int (conv_undef pf x)
      | _ \<Rightarrow> word_of_int (conv_undef pf x))"

definition float_to_i16 :: "platform \<Rightarrow> cfloat \<Rightarrow> 16 word" where
  "float_to_i16 pf x =
     (case x of
        Fin r \<Rightarrow> if - 32769 < r \<and> r < 32768 then word_of_int (trunc r)
                 else word_of_int (conv_undef pf x)
      | _ \<Rightarrow> word_of_int (conv_undef pf x))"

text \<open>\<^verbatim>\<open>M_PI\<close> of \<^verbatim>\<open>math.h\<close>: the \<^verbatim>\<open>double\<close> nearest to \<open>\<pi>\<close>.\<close>

definition M_PI :: cdouble where
  "M_PI = Fin (884279719003555 / 2 ^ 48)"

section \<open>Constants of the program\<close>

definition GYRO_SCALE :: cfloat where "GYRO_SCALE = Fin 131"
definition ACCEL_SCALE :: cfloat where "ACCEL_SCALE = Fin 16384"

definition MOTOR_MIN :: int where "MOTOR_MIN = 1000"
definition MOTOR_MAX :: int where "MOTOR_MAX = 2000"

definition LOOP_FREQ :: int where "LOOP_FREQ = 400"

definition DT :: cfloat where
  "DT = divf (Fin 1) (Fin (of_int LOOP_FREQ))"

definition MODE_MANUAL :: "8 word" where "MODE_MANUAL = 0"
definition MODE_STABILIZE :: "8 word" where "MODE_STABILIZE = 1"
definition MODE_ALTITUDE_HOLD :: "8 word" where "MODE_ALTITUDE_HOLD = 2"
definition MODE_POSITION_HOLD :: "8 word" where "MODE_POSITION_HOLD = 3"
definition MODE_AUTO :: "8 word" where "MODE_AUTO = 4"
definition MODE_RTH :: "8 word" where "MODE_RTH = 5"

definition MAX_TILT_ANGLE :: cfloat where "MAX_TILT_ANGLE = Fin 45"
definition RTH_ALTITUDE :: cfloat where "RTH_ALTITUDE = Fin 20"
definition OBSTACLE_DISTANCE :: cfloat where "OBSTACLE_DISTANCE = Fin 2"

text \<open>
  The gains are written as decimal literals; a literal denotes the nearest \<^verbatim>\<open>float\<close>.
\<close>

definition PID_ROLL_KP :: cfloat where "PID_ROLL_KP = rnd32 (15 / 10)"
definition PID_ROLL_KI :: cfloat where "PID_ROLL_KI = rnd32 (2 / 100)"
definition PID_ROLL_KD :: cfloat where "PID_ROLL_KD = rnd32 (8 / 10)"
definition PID_PITCH_KP :: cfloat where "PID_PITCH_KP = rnd32 (15 / 10)"
definition PID_PITCH_KI :: cfloat where "PID_PITCH_KI = rnd32 (2 / 100)"
definition PID_PITCH_KD :: cfloat where "PID_PITCH_KD = rnd32 (8 / 10)"
definition PID_YAW_KP :: cfloat where "PID_YAW_KP = rnd32 2"
definition PID_YAW_KI :: cfloat where "PID_YAW_KI = rnd32 (5 / 100)"
definition PID_YAW_KD :: cfloat where "PID_YAW_KD = rnd32 (5 / 10)"
definition PID_ALT_KP :: cfloat where "PID_ALT_KP = rnd32 3"
definition PID_ALT_KI :: cfloat where "PID_ALT_KI = rnd32 (5 / 10)"
definition PID_ALT_KD :: cfloat where "PID_ALT_KD = rnd32 (15 / 10)"
definition PID_POS_KP :: cfloat where "PID_POS_KP = rnd32 1"
definition PID_POS_KI :: cfloat where "PID_POS_KI = rnd32 (1 / 10)"
definition PID_POS_KD :: cfloat where "PID_POS_KD = rnd32 (5 / 10)"

section \<open>Data structures\<close>

text \<open>
  The structures of the program, field by field. The fields \<^verbatim>\<open>x\<close>, \<^verbatim>\<open>y\<close>, \<^verbatim>\<open>z\<close> of
  \<^verbatim>\<open>Vector3f\<close> are written \<open>vx\<close>, \<open>vy\<close>, \<open>vz\<close>, and the field \<^verbatim>\<open>output\<close> of
  \<^verbatim>\<open>PID\<close> is written \<open>output_pid\<close>.
\<close>

record Vector3f =
  vx :: cfloat
  vy :: cfloat
  vz :: cfloat

record Euler =
  roll :: cfloat
  pitch :: cfloat
  yaw :: cfloat

record GPSPosition =
  lat :: cdouble
  lon :: cdouble
  alt :: cfloat

record PID =
  kp :: cfloat
  ki :: cfloat
  kd :: cfloat
  error :: cfloat
  prev_error :: cfloat
  integral :: cfloat
  output_pid :: cfloat
  max_integral :: cfloat

record MotorOutputs =
  m1 :: "16 word"
  m2 :: "16 word"
  m3 :: "16 word"
  m4 :: "16 word"
  m5 :: "16 word"
  m6 :: "16 word"
  m7 :: "16 word"
  m8 :: "16 word"

record IMUData =
  gyro :: Vector3f
  accel :: Vector3f
  angles :: Euler
  temperature :: cfloat
  timestamp :: "32 word"

record GPSData =
  position :: GPSPosition
  ground_speed :: cfloat
  heading :: cfloat
  num_sats :: "8 word"
  fix_valid :: bool

record BaroData =
  altitude :: cfloat
  vertical_speed :: cfloat
  pressure :: cfloat

record ObstacleData =
  distance :: cfloat
  angle :: cfloat
  detected :: bool

record FlightCommand =
  throttle :: "16 word"
  setpoint :: Euler
  armed :: bool
  flight_mode :: "8 word"
  target_altitude :: cfloat
  target_position :: GPSPosition
  home_position :: GPSPosition

text \<open>The global variables of the program.\<close>

record globals =
  imu :: IMUData
  gps :: GPSData
  baro :: BaroData
  obstacle :: ObstacleData
  cmd :: FlightCommand
  motors :: MotorOutputs
  pid_roll :: PID
  pid_pitch :: PID
  pid_yaw :: PID
  pid_altitude :: PID
  pid_velocity_z :: PID
  pid_pos_n :: PID
  pid_pos_e :: PID
  pid_vel_n :: PID
  pid_vel_e :: PID

section \<open>Utility functions\<close>

definition constrain_float :: "cfloat \<Rightarrow> cfloat \<Rightarrow> cfloat \<Rightarrow> cfloat" where
  "constrain_float val lo hi = (if flt val lo then lo else if fgt val hi then hi else val)"

text \<open>
  The two loops of \<^verbatim>\<open>wrap_360\<close>. In floating-point arithmetic subtracting 360 from a
  large angle need not change it, so a loop may run forever: not returning is \<open>None\<close>.
\<close>

partial_function (option) wrap_360_down :: "cfloat \<Rightarrow> cfloat option" where
  "wrap_360_down a =
     (if fge a (Fin 360) then wrap_360_down (subf a (Fin 360)) else Some a)"

partial_function (option) wrap_360_up :: "cfloat \<Rightarrow> cfloat option" where
  "wrap_360_up a =
     (if flt a (Fin 0) then wrap_360_up (addf a (Fin 360)) else Some a)"

declare wrap_360_down.simps [code]
declare wrap_360_up.simps [code]

definition wrap_360 :: "cfloat \<Rightarrow> cfloat option" where
  "wrap_360 a = do { b \<leftarrow> wrap_360_down a; wrap_360_up b }"

text \<open>
  Degrees to radians as the program writes it in each place: \<^verbatim>\<open>v * M_PI / 180.0f\<close>,
  computed in \<^verbatim>\<open>double\<close>. The variable \<^verbatim>\<open>dlat\<close> of \<^verbatim>\<open>get_bearing_deg\<close> is not used
  by the function and is left out.
\<close>

definition deg2rad :: "cdouble \<Rightarrow> cdouble" where
  "deg2rad v = divd (muld v M_PI) (Fin 180)"

definition get_distance_meters :: "platform \<Rightarrow> GPSPosition \<Rightarrow> GPSPosition \<Rightarrow> cfloat" where
  "get_distance_meters pf pos1 pos2 =
     (let dlat = d2f (deg2rad (subd (lat pos2) (lat pos1)));
          dlon = d2f (deg2rad (subd (lon pos2) (lon pos1)));
          a = addf (mulf (sinf pf (divf dlat (Fin 2))) (sinf pf (divf dlat (Fin 2))))
                (mulf (mulf (mulf (cosf pf (d2f (deg2rad (lat pos1))))
                                  (cosf pf (d2f (deg2rad (lat pos2)))))
                            (sinf pf (divf dlon (Fin 2))))
                      (sinf pf (divf dlon (Fin 2))));
          c = mulf (Fin 2) (atan2f pf (sqrtf pf a) (sqrtf pf (subf (Fin 1) a)))
      in mulf (Fin 6371000) c)"

definition get_bearing_deg :: "platform \<Rightarrow> GPSPosition \<Rightarrow> GPSPosition \<Rightarrow> cfloat option" where
  "get_bearing_deg pf from to =
     (let dlon = d2f (deg2rad (subd (lon to) (lon from)));
          y = mulf (sinf pf dlon) (cosf pf (d2f (deg2rad (lat to))));
          x = subf (mulf (cosf pf (d2f (deg2rad (lat from)))) (sinf pf (d2f (deg2rad (lat to)))))
                (mulf (mulf (sinf pf (d2f (deg2rad (lat from)))) (cosf pf (d2f (deg2rad (lat to)))))
                      (cosf pf dlon))
      in wrap_360 (d2f (divd (mulf (atan2f pf y x) (Fin 180)) M_PI)))"

section \<open>Sensor input and attitude estimate\<close>

text \<open>
  \<^verbatim>\<open>read_imu_data\<close> reads twelve registers of the sensor over the bus, one exchange per
  register. The bus is outside the program: \<open>spi reg\<close> is the byte the sensor returns for
  register \<open>reg\<close> in this tick. Two bytes are joined as \<^verbatim>\<open>(hi << 8) | lo\<close> and stored in an
  \<^verbatim>\<open>int16_t\<close>.
\<close>

definition ICM20948_ACCEL_XOUT_H :: "8 word" where "ICM20948_ACCEL_XOUT_H = 0x2D"
definition ICM20948_GYRO_XOUT_H :: "8 word" where "ICM20948_GYRO_XOUT_H = 0x33"

definition raw_data :: "(8 word \<Rightarrow> 8 word) \<Rightarrow> nat \<Rightarrow> 8 word" where
  "raw_data spi i =
     (if i < 6 then spi (ICM20948_ACCEL_XOUT_H + of_nat i)
      else spi (ICM20948_GYRO_XOUT_H + of_nat (i - 6)))"

definition raw :: "(8 word \<Rightarrow> 8 word) \<Rightarrow> nat \<Rightarrow> 16 word" where
  "raw spi i = push_bit 8 (ucast (raw_data spi (i * 2))) OR ucast (raw_data spi (i * 2 + 1))"

definition read_imu_data :: "(8 word \<Rightarrow> 8 word) \<Rightarrow> IMUData \<Rightarrow> IMUData" where
  "read_imu_data spi data =
     data\<lparr>accel := \<lparr>vx = divf (i16_to_float (raw spi 0)) ACCEL_SCALE,
                    vy = divf (i16_to_float (raw spi 1)) ACCEL_SCALE,
                    vz = divf (i16_to_float (raw spi 2)) ACCEL_SCALE\<rparr>,
          gyro := \<lparr>vx = divf (i16_to_float (raw spi 3)) GYRO_SCALE,
                   vy = divf (i16_to_float (raw spi 4)) GYRO_SCALE,
                   vz = divf (i16_to_float (raw spi 5)) GYRO_SCALE\<rparr>\<rparr>"

definition alpha :: cfloat where
  "alpha = rnd32 (98 / 100)"

definition compute_angles :: "platform \<Rightarrow> IMUData \<Rightarrow> IMUData" where
  "compute_angles pf data =
     (let accel_roll = d2f (divd (mulf (atan2f pf (vy (accel data)) (vz (accel data))) (Fin 180)) M_PI);
          accel_pitch =
            d2f (divd (mulf (atan2f pf (fneg (vx (accel data)))
                               (sqrtf pf (addf (mulf (vy (accel data)) (vy (accel data)))
                                               (mulf (vz (accel data)) (vz (accel data))))))
                            (Fin 180)) M_PI);
          r1 = addf (roll (angles data)) (mulf (vx (gyro data)) DT);
          p1 = addf (pitch (angles data)) (mulf (vy (gyro data)) DT);
          y1 = addf (yaw (angles data)) (mulf (vz (gyro data)) DT);
          r2 = addf (mulf alpha r1) (mulf (subf (Fin 1) alpha) accel_roll);
          p2 = addf (mulf alpha p1) (mulf (subf (Fin 1) alpha) accel_pitch)
      in data\<lparr>angles := \<lparr>roll = r2, pitch = p2, yaw = y1\<rparr>\<rparr>)"

section \<open>PID controller\<close>

definition init_pid :: "PID \<Rightarrow> cfloat \<Rightarrow> cfloat \<Rightarrow> cfloat \<Rightarrow> cfloat \<Rightarrow> PID" where
  "init_pid pid kp' ki' kd' max_int =
     pid\<lparr>kp := kp', ki := ki', kd := kd', error := Fin 0, prev_error := Fin 0,
         integral := Fin 0, output_pid := Fin 0, max_integral := max_int\<rparr>"

text \<open>
  \<^verbatim>\<open>update_pid\<close> changes the controller in place and returns its output: the model
  returns the new controller and the output.
\<close>

definition update_pid :: "PID \<Rightarrow> cfloat \<Rightarrow> cfloat \<Rightarrow> cfloat \<Rightarrow> PID \<times> cfloat" where
  "update_pid pid sp measured dt =
     (let e = subf sp measured;
          i1 = addf (integral pid) (mulf e dt);
          i2 = constrain_float i1 (fneg (max_integral pid)) (max_integral pid);
          derivative = divf (subf e (prev_error pid)) dt;
          out = addf (addf (mulf (kp pid) e) (mulf (ki pid) i2)) (mulf (kd pid) derivative)
      in (pid\<lparr>error := e, integral := i2, prev_error := e, output_pid := out\<rparr>, out))"

section \<open>Controllers\<close>

text \<open>
  The variable \<^verbatim>\<open>altitude_error\<close> of \<^verbatim>\<open>altitude_hold_controller\<close> is not used by the
  function and is left out. The throttle is assigned twice: \<open>t1\<close> is its value after the
  first assignment, \<open>t2\<close> after the second.
\<close>

definition altitude_hold_controller :: "platform \<Rightarrow> globals \<Rightarrow> globals" where
  "altitude_hold_controller pf s =
     (if flight_mode (cmd s) < MODE_ALTITUDE_HOLD then s
      else
        let (pa, rate) = update_pid (pid_altitude s) (target_altitude (cmd s)) (altitude (baro s)) DT;
            target_climb_rate = constrain_float rate (Fin (- 3)) (Fin 3);
            (pv, throttle_adjust) =
               update_pid (pid_velocity_z s) target_climb_rate (vertical_speed (baro s)) DT;
            t1 = (word_of_int (1500 + sint (float_to_i16 pf throttle_adjust)) :: 16 word);
            t2 = float_to_u16 pf
                   (constrain_float (u16_to_float t1) (Fin (of_int MOTOR_MIN)) (Fin (of_int MOTOR_MAX)))
        in s\<lparr>pid_altitude := pa, pid_velocity_z := pv, cmd := (cmd s)\<lparr>throttle := t2\<rparr>\<rparr>)"

definition position_hold_controller :: "platform \<Rightarrow> globals \<Rightarrow> globals option" where
  "position_hold_controller pf s =
     (if flight_mode (cmd s) < MODE_POSITION_HOLD \<or> \<not> fix_valid (gps s) then Some s
      else do {
        let dist = get_distance_meters pf (position (gps s)) (target_position (cmd s));
        bearing \<leftarrow> get_bearing_deg pf (position (gps s)) (target_position (cmd s));
        let error_north = mulf dist (cosf pf (d2f (deg2rad bearing)));
        let error_east = mulf dist (sinf pf (d2f (deg2rad bearing)));
        let (ppn, out_n) = update_pid (pid_pos_n s) (Fin 0) error_north DT;
        let (ppe, out_e) = update_pid (pid_pos_e s) (Fin 0) error_east DT;
        let target_vel_n = constrain_float out_n (Fin (- 5)) (Fin 5);
        let target_vel_e = constrain_float out_e (Fin (- 5)) (Fin 5);
        let vel_n = mulf (ground_speed (gps s)) (cosf pf (d2f (deg2rad (heading (gps s)))));
        let vel_e = mulf (ground_speed (gps s)) (sinf pf (d2f (deg2rad (heading (gps s)))));
        let (pvn, angle_n) = update_pid (pid_vel_n s) target_vel_n vel_n DT;
        let (pve, angle_e) = update_pid (pid_vel_e s) target_vel_e vel_e DT;
        let heading_rad = d2f (deg2rad (yaw (angles (imu s))));
        let pitch1 = fneg (addf (mulf angle_n (cosf pf heading_rad)) (mulf angle_e (sinf pf heading_rad)));
        let roll1 = fneg (subf (mulf angle_e (cosf pf heading_rad)) (mulf angle_n (sinf pf heading_rad)));
        let pitch2 = constrain_float pitch1 (Fin (- 25)) (Fin 25);
        let roll2 = constrain_float roll1 (Fin (- 25)) (Fin 25);
        Some (s\<lparr>pid_pos_n := ppn, pid_pos_e := ppe, pid_vel_n := pvn, pid_vel_e := pve,
                cmd := (cmd s)\<lparr>setpoint := (setpoint (cmd s))\<lparr>pitch := pitch2, roll := roll2\<rparr>\<rparr>\<rparr>)
      })"

definition return_to_home_controller :: "platform \<Rightarrow> globals \<Rightarrow> globals option" where
  "return_to_home_controller pf s =
     (if flight_mode (cmd s) \<noteq> MODE_RTH \<or> \<not> fix_valid (gps s) then Some s
      else
        let dist = get_distance_meters pf (position (gps s)) (home_position (cmd s))
        in if flt dist (Fin 2) \<and> flt (altitude (baro s)) (Fin 1)
           then Some (s\<lparr>cmd := (cmd s)\<lparr>armed := False\<rparr>\<rparr>)
           else do {
             let s1 = (if flt (altitude (baro s)) RTH_ALTITUDE
                       then s\<lparr>cmd := (cmd s)\<lparr>target_altitude := RTH_ALTITUDE\<rparr>\<rparr> else s);
             let s2 = s1\<lparr>cmd := (cmd s1)\<lparr>target_position := home_position (cmd s1)\<rparr>\<rparr>;
             s3 \<leftarrow> position_hold_controller pf s2;
             Some (if flt dist (Fin 3)
                   then s3\<lparr>cmd := (cmd s3)\<lparr>target_altitude := rnd32 (5 / 10)\<rparr>\<rparr> else s3)
           })"

definition obstacle_avoidance :: "platform \<Rightarrow> globals \<Rightarrow> globals" where
  "obstacle_avoidance pf s =
     (if \<not> detected (obstacle s) then s
      else if flt (distance (obstacle s)) OBSTACLE_DISTANCE then
        let s1 = (if flt (pitch (setpoint (cmd s))) (Fin 0)
                  then s\<lparr>cmd := (cmd s)\<lparr>setpoint := (setpoint (cmd s))\<lparr>pitch := Fin 0\<rparr>\<rparr>\<rparr> else s);
            avoidance_angle = addf (angle (obstacle s1)) (Fin 90)
        in s1\<lparr>cmd := (cmd s1)\<lparr>setpoint := (setpoint (cmd s1))
               \<lparr>roll := mulf (Fin 10) (sinf pf (d2f (deg2rad avoidance_angle)))\<rparr>\<rparr>\<rparr>
      else s)"

section \<open>Stabilization and motor mixing\<close>

text \<open>
  Each mixed value is first assigned to its \<^verbatim>\<open>uint16_t\<close> channel and then read back,
  constrained and assigned again.
\<close>

definition constrain_motor :: "platform \<Rightarrow> 16 word \<Rightarrow> 16 word" where
  "constrain_motor pf m =
     float_to_u16 pf (constrain_float (u16_to_float m) (Fin (of_int MOTOR_MIN)) (Fin (of_int MOTOR_MAX)))"

definition stabilize_and_mix :: "platform \<Rightarrow> globals \<Rightarrow> globals" where
  "stabilize_and_mix pf s =
     (if \<not> armed (cmd s) then
        s\<lparr>motors := \<lparr>m1 = word_of_int MOTOR_MIN, m2 = word_of_int MOTOR_MIN,
                     m3 = word_of_int MOTOR_MIN, m4 = word_of_int MOTOR_MIN,
                     m5 = word_of_int MOTOR_MIN, m6 = word_of_int MOTOR_MIN,
                     m7 = word_of_int MOTOR_MIN, m8 = word_of_int MOTOR_MIN\<rparr>\<rparr>
      else
        let (pr, roll_correction) =
              update_pid (pid_roll s) (roll (setpoint (cmd s))) (roll (angles (imu s))) DT;
            (pp, pitch_correction) =
              update_pid (pid_pitch s) (pitch (setpoint (cmd s))) (pitch (angles (imu s))) DT;
            (py, yaw_correction) =
              update_pid (pid_yaw s) (yaw (setpoint (cmd s))) (yaw (angles (imu s))) DT;
            base = u16_to_float (throttle (cmd s));
            a1 = float_to_u16 pf (subf (addf (subf base roll_correction) pitch_correction) yaw_correction);
            a2 = float_to_u16 pf (addf (addf (addf base roll_correction) pitch_correction) yaw_correction);
            a3 = float_to_u16 pf (addf (subf (subf base roll_correction) pitch_correction) yaw_correction);
            a4 = float_to_u16 pf (subf (subf (addf base roll_correction) pitch_correction) yaw_correction)
        in s\<lparr>pid_roll := pr, pid_pitch := pp, pid_yaw := py,
             motors := (motors s)\<lparr>m1 := constrain_motor pf a1, m2 := constrain_motor pf a2,
                                  m3 := constrain_motor pf a3, m4 := constrain_motor pf a4\<rparr>\<rparr>)"

section \<open>Safety checks\<close>

text \<open>The last statement of \<^verbatim>\<open>safety_check\<close> drives the arming LED and changes no variable.\<close>

definition safety_check :: "globals \<Rightarrow> globals" where
  "safety_check s =
     (let s1 = (if fgt (fabsf (roll (angles (imu s)))) MAX_TILT_ANGLE
                   \<or> fgt (fabsf (pitch (angles (imu s)))) MAX_TILT_ANGLE
                then s\<lparr>cmd := (cmd s)\<lparr>armed := False\<rparr>\<rparr> else s);
          s2 = (if isnan (roll (angles (imu s1))) \<or> isnan (pitch (angles (imu s1)))
                then s1\<lparr>cmd := (cmd s1)\<lparr>armed := False\<rparr>\<rparr> else s1)
      in if MODE_POSITION_HOLD \<le> flight_mode (cmd s2) \<and> \<not> fix_valid (gps s2)
         then s2\<lparr>cmd := (cmd s2)\<lparr>flight_mode := MODE_ALTITUDE_HOLD\<rparr>\<rparr> else s2)"

section \<open>One iteration of the control thread\<close>

text \<open>
  One pass through the body of the loop of \<^verbatim>\<open>ControlThread\<close>, from reading the sensor to
  the mixer. The calls of \<^verbatim>\<open>set_motor_pwm\<close> and the sleep that follow change no variable.
  The pass is written in two parts: \<open>navigate\<close> is everything before the call of
  \<^verbatim>\<open>safety_check\<close>, so that the variables as the safety monitor finds them can be named.
\<close>

definition flight_mode_logic :: "platform \<Rightarrow> globals \<Rightarrow> globals option" where
  "flight_mode_logic pf s =
     (if flight_mode (cmd s) = MODE_ALTITUDE_HOLD \<or> flight_mode (cmd s) = MODE_POSITION_HOLD
         \<or> flight_mode (cmd s) = MODE_AUTO
      then Some (altitude_hold_controller pf s)
      else if flight_mode (cmd s) = MODE_RTH
      then do { s1 \<leftarrow> return_to_home_controller pf s; Some (altitude_hold_controller pf s1) }
      else Some s)"

definition navigate :: "platform \<Rightarrow> (8 word \<Rightarrow> 8 word) \<Rightarrow> globals \<Rightarrow> globals option" where
  "navigate pf spi s = do {
     let s1 = s\<lparr>imu := compute_angles pf (read_imu_data spi (imu s))\<rparr>;
     s2 \<leftarrow> flight_mode_logic pf s1;
     s3 \<leftarrow> (if MODE_POSITION_HOLD \<le> flight_mode (cmd s2) then position_hold_controller pf s2
            else Some s2);
     Some (obstacle_avoidance pf s3)
   }"

definition tick :: "platform \<Rightarrow> (8 word \<Rightarrow> 8 word) \<Rightarrow> globals \<Rightarrow> globals option" where
  "tick pf spi s = do {
     s4 \<leftarrow> navigate pf spi s;
     Some (stabilize_and_mix pf (safety_check s4))
   }"

section \<open>Initialization and the programming interface\<close>

text \<open>
  The variables have static storage: before \<^verbatim>\<open>control_system_init\<close> runs, every field is
  zero.
\<close>

definition zero_vec :: Vector3f where
  "zero_vec = \<lparr>vx = Fin 0, vy = Fin 0, vz = Fin 0\<rparr>"

definition zero_euler :: Euler where
  "zero_euler = \<lparr>roll = Fin 0, pitch = Fin 0, yaw = Fin 0\<rparr>"

definition zero_pos :: GPSPosition where
  "zero_pos = \<lparr>lat = Fin 0, lon = Fin 0, alt = Fin 0\<rparr>"

definition zero_pid :: PID where
  "zero_pid = \<lparr>kp = Fin 0, ki = Fin 0, kd = Fin 0, error = Fin 0, prev_error = Fin 0,
               integral = Fin 0, output_pid = Fin 0, max_integral = Fin 0\<rparr>"

definition boot_state :: globals where
  "boot_state =
     \<lparr>imu = \<lparr>gyro = zero_vec, accel = zero_vec, angles = zero_euler, temperature = Fin 0,
             timestamp = 0\<rparr>,
      gps = \<lparr>position = zero_pos, ground_speed = Fin 0, heading = Fin 0, num_sats = 0,
             fix_valid = False\<rparr>,
      baro = \<lparr>altitude = Fin 0, vertical_speed = Fin 0, pressure = Fin 0\<rparr>,
      obstacle = \<lparr>distance = Fin 0, angle = Fin 0, detected = False\<rparr>,
      cmd = \<lparr>throttle = 0, setpoint = zero_euler, armed = False, flight_mode = 0,
             target_altitude = Fin 0, target_position = zero_pos, home_position = zero_pos\<rparr>,
      motors = \<lparr>m1 = 0, m2 = 0, m3 = 0, m4 = 0, m5 = 0, m6 = 0, m7 = 0, m8 = 0\<rparr>,
      pid_roll = zero_pid, pid_pitch = zero_pid, pid_yaw = zero_pid,
      pid_altitude = zero_pid, pid_velocity_z = zero_pid,
      pid_pos_n = zero_pid, pid_pos_e = zero_pid, pid_vel_n = zero_pid, pid_vel_e = zero_pid\<rparr>"

text \<open>
  \<^verbatim>\<open>control_system_init\<close>, up to the creation of the control thread. The hardware set-up
  before it changes no variable.
\<close>

definition control_system_init :: "globals \<Rightarrow> globals" where
  "control_system_init s =
     s\<lparr>pid_roll := init_pid (pid_roll s) PID_ROLL_KP PID_ROLL_KI PID_ROLL_KD (Fin 400),
       pid_pitch := init_pid (pid_pitch s) PID_PITCH_KP PID_PITCH_KI PID_PITCH_KD (Fin 400),
       pid_yaw := init_pid (pid_yaw s) PID_YAW_KP PID_YAW_KI PID_YAW_KD (Fin 400),
       pid_altitude := init_pid (pid_altitude s) PID_ALT_KP PID_ALT_KI PID_ALT_KD (Fin 500),
       pid_velocity_z := init_pid (pid_velocity_z s) (Fin 2) (rnd32 (1 / 10)) (rnd32 (5 / 10)) (Fin 300),
       pid_pos_n := init_pid (pid_pos_n s) PID_POS_KP PID_POS_KI PID_POS_KD (Fin 100),
       pid_pos_e := init_pid (pid_pos_e s) PID_POS_KP PID_POS_KI PID_POS_KD (Fin 100),
       pid_vel_n := init_pid (pid_vel_n s) (rnd32 (5 / 10)) (rnd32 (5 / 100)) (rnd32 (1 / 10)) (Fin 50),
       pid_vel_e := init_pid (pid_vel_e s) (rnd32 (5 / 10)) (rnd32 (5 / 100)) (rnd32 (1 / 10)) (Fin 50),
       cmd := (cmd s)\<lparr>throttle := word_of_int MOTOR_MIN,
                      setpoint := (setpoint (cmd s))\<lparr>roll := Fin 0, pitch := Fin 0, yaw := Fin 0\<rparr>,
                      armed := False, flight_mode := MODE_STABILIZE, target_altitude := Fin 0\<rparr>,
       imu := (imu s)\<lparr>angles := (angles (imu s))\<lparr>roll := Fin 0, pitch := Fin 0, yaw := Fin 0\<rparr>\<rparr>\<rparr>"

definition set_flight_mode :: "8 word \<Rightarrow> globals \<Rightarrow> globals" where
  "set_flight_mode mode s = s\<lparr>cmd := (cmd s)\<lparr>flight_mode := mode\<rparr>\<rparr>"

definition set_target_altitude :: "cfloat \<Rightarrow> globals \<Rightarrow> globals" where
  "set_target_altitude altitude_m s = s\<lparr>cmd := (cmd s)\<lparr>target_altitude := altitude_m\<rparr>\<rparr>"

definition set_target_position :: "cdouble \<Rightarrow> cdouble \<Rightarrow> globals \<Rightarrow> globals" where
  "set_target_position la lo s =
     s\<lparr>cmd := (cmd s)\<lparr>target_position := (target_position (cmd s))\<lparr>lat := la, lon := lo\<rparr>\<rparr>\<rparr>"

definition set_home_position :: "cdouble \<Rightarrow> cdouble \<Rightarrow> cfloat \<Rightarrow> globals \<Rightarrow> globals" where
  "set_home_position la lo al s =
     s\<lparr>cmd := (cmd s)\<lparr>home_position := (home_position (cmd s))\<lparr>lat := la, lon := lo, alt := al\<rparr>\<rparr>\<rparr>"

definition update_gps_data ::
  "cdouble \<Rightarrow> cdouble \<Rightarrow> cfloat \<Rightarrow> cfloat \<Rightarrow> cfloat \<Rightarrow> 8 word \<Rightarrow> globals \<Rightarrow> globals" where
  "update_gps_data la lo al speed hdg sats s =
     s\<lparr>gps := (gps s)\<lparr>position := (position (gps s))\<lparr>lat := la, lon := lo, alt := al\<rparr>,
                      ground_speed := speed, heading := hdg, num_sats := sats,
                      fix_valid := (6 \<le> sats)\<rparr>\<rparr>"

definition update_baro_data :: "cfloat \<Rightarrow> cfloat \<Rightarrow> globals \<Rightarrow> globals" where
  "update_baro_data al vs s = s\<lparr>baro := (baro s)\<lparr>altitude := al, vertical_speed := vs\<rparr>\<rparr>"

definition update_obstacle_data :: "cfloat \<Rightarrow> cfloat \<Rightarrow> bool \<Rightarrow> globals \<Rightarrow> globals" where
  "update_obstacle_data d a det s =
     s\<lparr>obstacle := (obstacle s)\<lparr>distance := d, angle := a, detected := det\<rparr>\<rparr>"

definition arm_motors :: "globals \<Rightarrow> globals" where
  "arm_motors s = s\<lparr>cmd := (cmd s)\<lparr>armed := True\<rparr>\<rparr>"

definition disarm_motors :: "globals \<Rightarrow> globals" where
  "disarm_motors s = s\<lparr>cmd := (cmd s)\<lparr>armed := False\<rparr>\<rparr>"

definition trigger_return_to_home :: "globals \<Rightarrow> globals" where
  "trigger_return_to_home s = s\<lparr>cmd := (cmd s)\<lparr>flight_mode := MODE_RTH\<rparr>\<rparr>"

text \<open>
  The calls of the programming interface that change a variable, as values, so that a
  sequence of calls made between two iterations can be spoken about.
\<close>

datatype api_call =
    Set_flight_mode "8 word"
  | Set_target_altitude cfloat
  | Set_target_position cdouble cdouble
  | Set_home_position cdouble cdouble cfloat
  | Update_gps_data cdouble cdouble cfloat cfloat cfloat "8 word"
  | Update_baro_data cfloat cfloat
  | Update_obstacle_data cfloat cfloat bool
  | Arm_motors
  | Disarm_motors
  | Trigger_return_to_home

fun api :: "api_call \<Rightarrow> globals \<Rightarrow> globals" where
  "api (Set_flight_mode mode) s = set_flight_mode mode s"
| "api (Set_target_altitude a) s = set_target_altitude a s"
| "api (Set_target_position la lo) s = set_target_position la lo s"
| "api (Set_home_position la lo al) s = set_home_position la lo al s"
| "api (Update_gps_data la lo al speed hdg sats) s = update_gps_data la lo al speed hdg sats s"
| "api (Update_baro_data al vs) s = update_baro_data al vs s"
| "api (Update_obstacle_data d a det) s = update_obstacle_data d a det s"
| "api Arm_motors s = arm_motors s"
| "api Disarm_motors s = disarm_motors s"
| "api Trigger_return_to_home s = trigger_return_to_home s"

section \<open>A bench set-up for examples\<close>

text \<open>
  The examples below run the program with the vehicle at rest and level at latitude
  and longitude zero. The C library is then called at a handful of arguments only, where
  its values are exact: \<open>sin 0 = 0\<close>, \<open>cos 0 = 1\<close>, \<open>\<surd>0 = 0\<close>, \<open>\<surd>1 = 1\<close>,
  \<open>atan2 0 1 = 0\<close> and \<open>atan2 0 0 = 0\<close>. \<open>bench_platform\<close> tabulates these values; at the
  arguments that do not occur in the examples it answers NaN. No conversion of the examples
  is out of range.
\<close>

definition bench_platform :: platform where
  "bench_platform =
     \<lparr>sinf = (\<lambda>x. if x = Fin 0 then Fin 0 else NaN),
      cosf = (\<lambda>x. if x = Fin 0 then Fin 1 else NaN),
      sqrtf = (\<lambda>x. if x = Fin 0 then Fin 0 else if x = Fin 1 then Fin 1 else NaN),
      atan2f = (\<lambda>y x. if y = Fin 0 \<and> (x = Fin 1 \<or> x = Fin 0) then Fin 0 else NaN),
      conv_undef = (\<lambda>x. 0)\<rparr>"

text \<open>
  The sensor at rest and level: one g on the z axis (\<^verbatim>\<open>0x4000\<close> in the registers
  \<^verbatim>\<open>0x31\<close>, \<^verbatim>\<open>0x32\<close>), zero elsewhere.
\<close>

definition level_spi :: "8 word \<Rightarrow> 8 word" where
  "level_spi reg = (if reg = 0x31 then 0x40 else 0)"

text \<open>
  The states of the examples: after \<^verbatim>\<open>control_system_init\<close>; with the attitude estimate
  left by earlier iterations at a roll of \<open>r\<close> degrees and the motors armed; in altitude
  hold, 100 m above the target altitude and climbing at 5 m/s; armed in position hold without
  a GPS fix; and returning home with a fix, 10 m above the home position, moving north at
  2 m/s.
\<close>

definition init_state :: globals where
  "init_state = control_system_init boot_state"

definition rolled_state :: "real \<Rightarrow> globals" where
  "rolled_state r =
     arm_motors (init_state\<lparr>imu := (imu init_state)\<lparr>angles := (angles (imu init_state))\<lparr>roll := Fin r\<rparr>\<rparr>\<rparr>)"

definition descent_state :: globals where
  "descent_state =
     update_baro_data (Fin 100) (Fin 5) (set_flight_mode MODE_ALTITUDE_HOLD init_state)"

definition no_fix_state :: globals where
  "no_fix_state = arm_motors (set_flight_mode MODE_POSITION_HOLD init_state)"

definition rth_state :: globals where
  "rth_state =
     update_baro_data (Fin 10) (Fin 0)
       (update_gps_data (Fin 0) (Fin 0) (Fin 0) (Fin 2) (Fin 0) 8
          (trigger_return_to_home init_state))"

section \<open>Auxiliary notions\<close>

text \<open>The invariant of the integrator: the accumulator is finite and within the bound.\<close>

definition integral_bounded :: "real \<Rightarrow> PID \<Rightarrow> bool" where
  "integral_bounded m p \<longleftrightarrow> max_integral p = Fin m \<and> (\<exists>i. integral p = Fin i \<and> \<bar>i\<bar> \<le> m)"

text \<open>
  What no controller that runs before the safety monitor changes: the sensor data, the
  motor outputs, the attitude controllers, the flight mode and the home position; and none
  of them arms the motors.
\<close>

definition nav_frame :: "globals \<Rightarrow> globals \<Rightarrow> bool" where
  "nav_frame s t \<longleftrightarrow>
     imu t = imu s \<and> gps t = gps s \<and> baro t = baro s \<and> obstacle t = obstacle s
     \<and> motors t = motors s
     \<and> pid_roll t = pid_roll s \<and> pid_pitch t = pid_pitch s \<and> pid_yaw t = pid_yaw s
     \<and> flight_mode (cmd t) = flight_mode (cmd s)
     \<and> home_position (cmd t) = home_position (cmd s)
     \<and> (armed (cmd t) \<longrightarrow> armed (cmd s))"

text \<open>
  An attitude fault: roll or pitch beyond \<^verbatim>\<open>MAX_TILT_ANGLE\<close> in magnitude, or NaN.
\<close>

definition tilt_fault :: "Euler \<Rightarrow> bool" where
  "tilt_fault a \<longleftrightarrow>
     fgt (fabsf (roll a)) MAX_TILT_ANGLE \<or> fgt (fabsf (pitch a)) MAX_TILT_ANGLE
     \<or> isnan (roll a) \<or> isnan (pitch a)"

text \<open>
  The position errors and the ground velocities that \<^verbatim>\<open>position_hold_controller\<close>
  computes in its local variables of these names, from the GPS data, the target and the
  bearing \<open>b\<close> to the target.
\<close>

definition error_north :: "platform \<Rightarrow> GPSPosition \<Rightarrow> GPSPosition \<Rightarrow> cfloat \<Rightarrow> cfloat" where
  "error_north pf p target b = mulf (get_distance_meters pf p target) (cosf pf (d2f (deg2rad b)))"

definition error_east :: "platform \<Rightarrow> GPSPosition \<Rightarrow> GPSPosition \<Rightarrow> cfloat \<Rightarrow> cfloat" where
  "error_east pf p target b = mulf (get_distance_meters pf p target) (sinf pf (d2f (deg2rad b)))"

definition vel_n :: "platform \<Rightarrow> GPSData \<Rightarrow> cfloat" where
  "vel_n pf g = mulf (ground_speed g) (cosf pf (d2f (deg2rad (heading g))))"

definition vel_e :: "platform \<Rightarrow> GPSData \<Rightarrow> cfloat" where
  "vel_e pf g = mulf (ground_speed g) (sinf pf (d2f (deg2rad (heading g))))"

text \<open>
  One pass of \<^verbatim>\<open>position_hold_controller\<close> along one axis, as it acts on the position
  controller and the velocity controller of that axis: one call of \<^verbatim>\<open>update_pid\<close> for
  each, the second with the clamped output of the first as its setpoint. \<open>err\<close> is the
  position error along the axis and \<open>v\<close> the ground velocity along it.
\<close>

fun cascade_axis :: "cfloat \<Rightarrow> cfloat \<Rightarrow> PID \<times> PID \<Rightarrow> PID \<times> PID" where
  "cascade_axis err v (pos, vel) =
     (let (pos', out) = update_pid pos (Fin 0) err DT;
          (vel', ang) = update_pid vel (constrain_float out (Fin (- 5)) (Fin 5)) v DT
      in (pos', vel'))"

section \<open>Facts about the arithmetic\<close>

lemma fround_not_nan: "fround p em r \<noteq> NaN"
  by (simp add: fround_def with_overflow_def)

lemma rnd32_not_nan: "rnd32 r \<noteq> NaN"
  by (simp add: rnd32_def fround_not_nan)

lemma subf_finite_not_nan: "subf (Fin a) (Fin b) \<noteq> NaN"
  by (simp add: fsub_def rnd32_not_nan)

lemma mulf_positive_not_nan:
  assumes "0 < d" and "x \<noteq> NaN"
  shows "mulf x (Fin d) \<noteq> NaN"
  using assms by (cases x) (simp_all add: rnd32_not_nan signed_inf_def)

lemma addf_finite_not_nan:
  assumes "x \<noteq> NaN"
  shows "addf (Fin i) x \<noteq> NaN"
  using assms by (cases x) (simp_all add: rnd32_not_nan)

lemma constrain_float_bounded:
  assumes "0 \<le> m" and "x \<noteq> NaN"
  shows "\<exists>y. constrain_float x (Fin (- m)) (Fin m) = Fin y \<and> \<bar>y\<bar> \<le> m"
  using assms by (cases x) (auto simp: constrain_float_def fgt_def)

lemma bitlen_numeral [simp]:
  "bitlen 0 = 0"
  "bitlen 1 = 1"
  "bitlen (numeral (Num.Bit0 n)) = bitlen (numeral n) + 1"
  "bitlen (numeral (Num.Bit1 n)) = bitlen (numeral n) + 1"
  "bitlen (- numeral n) = 0"
  by (subst bitlen.simps, simp)+

lemmas float_eval = rnd32_def rnd64_def fround_def with_overflow_def round_at_def ilog2_def
  scale2_def half_even_def tie_even_def fsub_def fgt_def fge_def signed_inf_def

lemma DT_value: "DT = Fin (10737418 / 2 ^ 32)"
  by (simp add: DT_def LOOP_FREQ_def float_eval)

text \<open>Rule sets for running the program on given values.\<close>

lemmas const_eval = MOTOR_MIN_def MOTOR_MAX_def MODE_MANUAL_def MODE_STABILIZE_def
  MODE_ALTITUDE_HOLD_def MODE_POSITION_HOLD_def MODE_AUTO_def MODE_RTH_def MAX_TILT_ANGLE_def
  RTH_ALTITUDE_def OBSTACLE_DISTANCE_def GYRO_SCALE_def ACCEL_SCALE_def
  PID_ROLL_KP_def PID_ROLL_KI_def PID_ROLL_KD_def PID_PITCH_KP_def PID_PITCH_KI_def
  PID_PITCH_KD_def PID_YAW_KP_def PID_YAW_KI_def PID_YAW_KD_def PID_ALT_KP_def PID_ALT_KI_def
  PID_ALT_KD_def PID_POS_KP_def PID_POS_KI_def PID_POS_KD_def DT_value M_PI_def alpha_def
  ICM20948_ACCEL_XOUT_H_def ICM20948_GYRO_XOUT_H_def

lemmas init_eval = control_system_init_def boot_state_def init_pid_def zero_pid_def zero_vec_def
  zero_euler_def zero_pos_def

lemmas conv_eval = float_to_i16_def float_to_u16_def u16_to_float_def i16_to_float_def trunc_def
  deg2rad_def word_le_nat_alt word_less_nat_alt

lemmas api_eval = set_flight_mode_def set_target_altitude_def set_target_position_def
  set_home_position_def update_gps_data_def update_baro_data_def update_obstacle_data_def
  arm_motors_def disarm_motors_def trigger_return_to_home_def

lemmas bench_eval = bench_platform_def level_spi_def raw_def raw_data_def

text \<open>
  Evaluation proceeds by value: a bound expression is evaluated before the body that uses
  it.
\<close>

lemma bind_weak_cong: "x = y \<Longrightarrow> Option.bind x f = Option.bind y f"
  by simp

lemmas weak_congs = let_weak_cong prod.case_cong_weak bind_weak_cong

lemma wrap_360_down_stop [simp]: "\<not> fge a (Fin 360) \<Longrightarrow> wrap_360_down a = Some a"
  by (subst wrap_360_down.simps) simp

lemma wrap_360_up_stop [simp]: "\<not> flt a (Fin 0) \<Longrightarrow> wrap_360_up a = Some a"
  by (subst wrap_360_up.simps) simp

lemma init_state_value:
  "init_state =
     \<lparr>imu = \<lparr>gyro = zero_vec, accel = zero_vec, angles = zero_euler, temperature = Fin 0,
             timestamp = 0\<rparr>,
      gps = \<lparr>position = zero_pos, ground_speed = Fin 0, heading = Fin 0, num_sats = 0,
             fix_valid = False\<rparr>,
      baro = \<lparr>altitude = Fin 0, vertical_speed = Fin 0, pressure = Fin 0\<rparr>,
      obstacle = \<lparr>distance = Fin 0, angle = Fin 0, detected = False\<rparr>,
      cmd = \<lparr>throttle = 1000, setpoint = zero_euler, armed = False, flight_mode = 1,
             target_altitude = Fin 0, target_position = zero_pos, home_position = zero_pos\<rparr>,
      motors = \<lparr>m1 = 0, m2 = 0, m3 = 0, m4 = 0, m5 = 0, m6 = 0, m7 = 0, m8 = 0\<rparr>,
      pid_roll = \<lparr>kp = Fin (3 / 2), ki = Fin (5368709 / 2 ^ 28), kd = Fin (13421773 / 2 ^ 24),
         error = Fin 0, prev_error = Fin 0, integral = Fin 0, output_pid = Fin 0,
         max_integral = Fin 400\<rparr>,
      pid_pitch = \<lparr>kp = Fin (3 / 2), ki = Fin (5368709 / 2 ^ 28), kd = Fin (13421773 / 2 ^ 24),
         error = Fin 0, prev_error = Fin 0, integral = Fin 0, output_pid = Fin 0,
         max_integral = Fin 400\<rparr>,
      pid_yaw = \<lparr>kp = Fin 2, ki = Fin (13421773 / 2 ^ 28), kd = Fin (1 / 2),
         error = Fin 0, prev_error = Fin 0, integral = Fin 0, output_pid = Fin 0,
         max_integral = Fin 400\<rparr>,
      pid_altitude = \<lparr>kp = Fin 3, ki = Fin (1 / 2), kd = Fin (3 / 2),
         error = Fin 0, prev_error = Fin 0, integral = Fin 0, output_pid = Fin 0,
         max_integral = Fin 500\<rparr>,
      pid_velocity_z = \<lparr>kp = Fin 2, ki = Fin (13421773 / 2 ^ 27), kd = Fin (1 / 2),
         error = Fin 0, prev_error = Fin 0, integral = Fin 0, output_pid = Fin 0,
         max_integral = Fin 300\<rparr>,
      pid_pos_n = \<lparr>kp = Fin 1, ki = Fin (13421773 / 2 ^ 27), kd = Fin (1 / 2),
         error = Fin 0, prev_error = Fin 0, integral = Fin 0, output_pid = Fin 0,
         max_integral = Fin 100\<rparr>,
      pid_pos_e = \<lparr>kp = Fin 1, ki = Fin (13421773 / 2 ^ 27), kd = Fin (1 / 2),
         error = Fin 0, prev_error = Fin 0, integral = Fin 0, output_pid = Fin 0,
         max_integral = Fin 100\<rparr>,
      pid_vel_n = \<lparr>kp = Fin (1 / 2), ki = Fin (13421773 / 2 ^ 28), kd = Fin (13421773 / 2 ^ 27),
         error = Fin 0, prev_error = Fin 0, integral = Fin 0, output_pid = Fin 0,
         max_integral = Fin 50\<rparr>,
      pid_vel_e = \<lparr>kp = Fin (1 / 2), ki = Fin (13421773 / 2 ^ 28), kd = Fin (13421773 / 2 ^ 27),
         error = Fin 0, prev_error = Fin 0, integral = Fin 0, output_pid = Fin 0,
         max_integral = Fin 50\<rparr>\<rparr>"
  by (simp add: init_state_def init_eval const_eval float_eval)

lemmas prog_eval = tick_def navigate_def flight_mode_logic_def compute_angles_def
  read_imu_data_def altitude_hold_controller_def position_hold_controller_def
  return_to_home_controller_def obstacle_avoidance_def safety_check_def stabilize_and_mix_def
  constrain_motor_def update_pid_def constrain_float_def get_distance_meters_def
  get_bearing_deg_def wrap_360_def tilt_fault_def

lemmas state_eval = init_state_value zero_vec_def zero_euler_def zero_pos_def

lemmas run = prog_eval api_eval state_eval const_eval conv_eval float_eval bench_eval Let_def

section \<open>The integrator stays within its bound\<close>

lemma update_pid_integral_bounded:
  assumes inv: "integral_bounded m p" and m: "0 \<le> m"
    and fin: "is_finite sp" "is_finite measured" "is_finite dt" and dt: "flt (Fin 0) dt"
  shows "integral_bounded m (fst (update_pid p sp measured dt))"
proof -
  from fin obtain a b d where ab: "sp = Fin a" "measured = Fin b" "dt = Fin d"
    by (cases sp; cases measured; cases dt) auto
  with dt have d: "0 < d" by simp
  from inv obtain i where i: "max_integral p = Fin m" "integral p = Fin i"
    by (auto simp: integral_bounded_def)
  have "addf (Fin i) (mulf (subf (Fin a) (Fin b)) (Fin d)) \<noteq> NaN"
    by (intro addf_finite_not_nan mulf_positive_not_nan subf_finite_not_nan d)
  from constrain_float_bounded [OF m this] show ?thesis
    by (simp add: update_pid_def Let_def integral_bounded_def ab i)
qed

lemma init_pid_integral_bounded: "0 \<le> m \<Longrightarrow> integral_bounded m (init_pid p a b c (Fin m))"
  by (simp add: integral_bounded_def init_pid_def)

lemma foldl_update_pid_integral_bounded:
  assumes "integral_bounded m p" and "0 \<le> m"
    and "\<forall>(sp, measured, dt) \<in> set calls.
           is_finite sp \<and> is_finite measured \<and> is_finite dt \<and> flt (Fin 0) dt"
  shows "integral_bounded m
           (foldl (\<lambda>q (sp, measured, dt). fst (update_pid q sp measured dt)) p calls)"
  using assms
proof (induction calls arbitrary: p)
  case Nil
  then show ?case by simp
next
  case (Cons c calls)
  obtain sp measured dt where c: "c = (sp, measured, dt)" by (cases c) auto
  with Cons.prems have "integral_bounded m (fst (update_pid p sp measured dt))"
    by (intro update_pid_integral_bounded) auto
  with Cons show ?case by (simp add: c)
qed

text \<open>
  Claim C4, as amended. A controller initialised by \<^verbatim>\<open>init_pid\<close> with a finite bound
  \<open>max_integral \<ge> 0\<close> has \<open>|integral| \<le> max_integral\<close> after any finite sequence of calls of
  \<^verbatim>\<open>update_pid\<close> whose setpoint, measured value and time step are finite, with a time
  step greater than zero. The differences and products may overflow to an infinity; the
  clamp brings the accumulator back to the bound.
\<close>

theorem integral_within_finite_bound:
  assumes "0 \<le> m"
    and "\<forall>(sp, measured, dt) \<in> set calls.
           is_finite sp \<and> is_finite measured \<and> is_finite dt \<and> flt (Fin 0) dt"
  shows "fle (fabsf (integral
            (foldl (\<lambda>q (sp, measured, dt). fst (update_pid q sp measured dt))
               (init_pid p kp' ki' kd' (Fin m)) calls)))
           (Fin m)"
proof -
  have "integral_bounded m
          (foldl (\<lambda>q (sp, measured, dt). fst (update_pid q sp measured dt))
             (init_pid p kp' ki' kd' (Fin m)) calls)"
    using assms by (intro foldl_update_pid_integral_bounded init_pid_integral_bounded)
  then show ?thesis
    by (auto simp: integral_bounded_def)
qed

theorem integral_within_finite_bound_witness:
  "(0::real) \<le> 400
   \<and> (is_finite (Fin 0) \<and> is_finite (Fin 10) \<and> is_finite DT \<and> flt (Fin 0) DT)
   \<and> (is_finite (Fin 0) \<and> is_finite (Fin (- 50)) \<and> is_finite DT \<and> flt (Fin 0) DT)
   \<and> fle (fabsf (integral
            (foldl (\<lambda>q (sp, measured, dt). fst (update_pid q sp measured dt))
               (init_pid zero_pid PID_ROLL_KP PID_ROLL_KI PID_ROLL_KD (Fin 400))
               [(Fin 0, Fin 10, DT), (Fin 0, Fin (- 50), DT)])))
          (Fin 400)"
proof -
  have h1: "(0::real) \<le> 400" by simp
  have c: "is_finite (Fin 0) \<and> is_finite (Fin 10) \<and> is_finite DT \<and> flt (Fin 0) DT"
    "is_finite (Fin 0) \<and> is_finite (Fin (- 50)) \<and> is_finite DT \<and> flt (Fin 0) DT"
    by (simp_all add: DT_value)
  then have h2: "\<forall>(sp, measured, dt) \<in> set [(Fin 0, Fin 10, DT), (Fin 0, Fin (- 50), DT)].
              is_finite sp \<and> is_finite measured \<and> is_finite dt \<and> flt (Fin 0) dt"
    by simp
  from integral_within_finite_bound [OF h1 h2] h1 c show ?thesis
    by blast
qed

text \<open>
  Claim C4 as stated fails for the bound \<open>+\<infinity>\<close>, which is \<open>\<ge> 0\<close>. The setpoint
  \<open>2 ^ 127\<close> and the measured value \<open>- 2 ^ 127\<close> are finite values of \<^verbatim>\<open>float\<close>, and the
  time step is 1; their difference overflows to \<open>+\<infinity>\<close>, which the clamp lets through. The
  next call, with the two values exchanged, adds \<open>-\<infinity>\<close>: the accumulator is NaN, and NaN
  is not below any bound.
\<close>

theorem integral_nan_with_infinite_bound:
  "rnd32 (2 ^ 127) = Fin (2 ^ 127) \<and> flt (Fin 0) (Fin 1) \<and> fle (Fin 0) PInf
   \<and> \<not> fle (fabsf (integral
            (foldl (\<lambda>q (sp, measured, dt). fst (update_pid q sp measured dt))
               (init_pid zero_pid (Fin 1) (Fin 1) (Fin 1) PInf)
               [(Fin (2 ^ 127), Fin (- (2 ^ 127)), Fin 1),
                (Fin (- (2 ^ 127)), Fin (2 ^ 127), Fin 1)])))
          PInf"
  by (simp add: update_pid_def constrain_float_def init_eval float_eval Let_def
      cong: let_weak_cong)

section \<open>The mixer when disarmed\<close>

text \<open>
  Claim C3. When \<^verbatim>\<open>cmd.armed\<close> is false, \<^verbatim>\<open>stabilize_and_mix\<close> sets all eight motor
  outputs to \<^verbatim>\<open>MOTOR_MIN\<close>, 1000 microseconds, and updates no controller: the three
  attitude controllers, and every other variable but the motor outputs, are as before.
\<close>

theorem stabilize_and_mix_disarmed:
  assumes "\<not> armed (cmd s)"
  shows "stabilize_and_mix pf s =
           s\<lparr>motors := \<lparr>m1 = 1000, m2 = 1000, m3 = 1000, m4 = 1000,
                        m5 = 1000, m6 = 1000, m7 = 1000, m8 = 1000\<rparr>\<rparr>
         \<and> pid_roll (stabilize_and_mix pf s) = pid_roll s
         \<and> pid_pitch (stabilize_and_mix pf s) = pid_pitch s
         \<and> pid_yaw (stabilize_and_mix pf s) = pid_yaw s"
  using assms by (simp add: stabilize_and_mix_def MOTOR_MIN_def)

theorem stabilize_and_mix_disarmed_witness:
  "\<not> armed (cmd (control_system_init boot_state))
   \<and> stabilize_and_mix bench_platform (control_system_init boot_state) =
       (control_system_init boot_state)
         \<lparr>motors := \<lparr>m1 = 1000, m2 = 1000, m3 = 1000, m4 = 1000,
                      m5 = 1000, m6 = 1000, m7 = 1000, m8 = 1000\<rparr>\<rparr>
   \<and> pid_roll (stabilize_and_mix bench_platform (control_system_init boot_state)) =
       pid_roll (control_system_init boot_state)
   \<and> pid_pitch (stabilize_and_mix bench_platform (control_system_init boot_state)) =
       pid_pitch (control_system_init boot_state)
   \<and> pid_yaw (stabilize_and_mix bench_platform (control_system_init boot_state)) =
       pid_yaw (control_system_init boot_state)"
proof -
  have h: "\<not> armed (cmd (control_system_init boot_state))"
    by (simp add: control_system_init_def)
  from stabilize_and_mix_disarmed [OF h, of bench_platform] h show ?thesis
    by blast
qed

section \<open>The position controller when it is skipped\<close>

text \<open>
  Claim C8. Called in a flight mode below \<^verbatim>\<open>MODE_POSITION_HOLD\<close>, or without a valid GPS
  fix, \<^verbatim>\<open>position_hold_controller\<close> returns at once and changes no variable: the setpoint
  and the four position and velocity controllers, and all the rest, are as before.
\<close>

theorem position_hold_controller_skipped:
  assumes "flight_mode (cmd s) < MODE_POSITION_HOLD \<or> \<not> fix_valid (gps s)"
  shows "position_hold_controller pf s = Some s"
  using assms by (auto simp: position_hold_controller_def)

theorem position_hold_controller_skipped_witness:
  "(flight_mode (cmd (control_system_init boot_state)) < MODE_POSITION_HOLD
      \<or> \<not> fix_valid (gps (control_system_init boot_state)))
   \<and> position_hold_controller bench_platform (control_system_init boot_state) =
       Some (control_system_init boot_state)"
proof -
  have h: "flight_mode (cmd (control_system_init boot_state)) < MODE_POSITION_HOLD
             \<or> \<not> fix_valid (gps (control_system_init boot_state))"
    by (simp add: control_system_init_def MODE_STABILIZE_def MODE_POSITION_HOLD_def)
  from position_hold_controller_skipped [OF h, of bench_platform] h show ?thesis
    by blast
qed

section \<open>The range of the motor outputs\<close>

text \<open>
  The four channels that the mixer computes are within 1000 to 2000 microseconds after every
  call, armed or not. The four reserved channels are written by the disarmed branch only;
  the armed branch leaves them as they are.
\<close>

lemma constrain_motor_in_range:
  "1000 \<le> constrain_motor pf m \<and> constrain_motor pf m \<le> 2000"
proof -
  have "\<exists>y. constrain_float (u16_to_float m) (Fin 1000) (Fin 2000) = Fin y \<and> 1000 \<le> y \<and> y \<le> 2000"
    by (auto simp: constrain_float_def u16_to_float_def fgt_def)
  then obtain y where y: "constrain_float (u16_to_float m) (Fin 1000) (Fin 2000) = Fin y"
    and r: "1000 \<le> y" "y \<le> 2000" by blast
  from r have f: "1000 \<le> \<lfloor>y\<rfloor>" "\<lfloor>y\<rfloor> \<le> 2000"
    by (simp_all add: le_floor_iff floor_le_iff)
  then have "uint (word_of_int \<lfloor>y\<rfloor> :: 16 word) = \<lfloor>y\<rfloor>"
    by (simp add: uint_word_of_int)
  with f have "1000 \<le> (word_of_int \<lfloor>y\<rfloor> :: 16 word) \<and> (word_of_int \<lfloor>y\<rfloor> :: 16 word) \<le> 2000"
    by (simp add: word_le_def)
  then show ?thesis
    using r
    by (simp add: constrain_motor_def y float_to_u16_def trunc_def MOTOR_MIN_def MOTOR_MAX_def)
qed

lemma stabilize_and_mix_channels_in_range:
  "1000 \<le> m1 (motors (stabilize_and_mix pf s)) \<and> m1 (motors (stabilize_and_mix pf s)) \<le> 2000
   \<and> 1000 \<le> m2 (motors (stabilize_and_mix pf s)) \<and> m2 (motors (stabilize_and_mix pf s)) \<le> 2000
   \<and> 1000 \<le> m3 (motors (stabilize_and_mix pf s)) \<and> m3 (motors (stabilize_and_mix pf s)) \<le> 2000
   \<and> 1000 \<le> m4 (motors (stabilize_and_mix pf s)) \<and> m4 (motors (stabilize_and_mix pf s)) \<le> 2000"
  using constrain_motor_in_range
  by (simp add: stabilize_and_mix_def MOTOR_MIN_def Let_def split: prod.splits)

lemma stabilize_and_mix_armed_reserved:
  assumes "armed (cmd s)"
  shows "m5 (motors (stabilize_and_mix pf s)) = m5 (motors s)
         \<and> m6 (motors (stabilize_and_mix pf s)) = m6 (motors s)
         \<and> m7 (motors (stabilize_and_mix pf s)) = m7 (motors s)
         \<and> m8 (motors (stabilize_and_mix pf s)) = m8 (motors s)"
  using assms by (simp add: stabilize_and_mix_def Let_def split: prod.splits)

text \<open>
  Claim C2 at the input where the program departs from it: \<^verbatim>\<open>control_system_init\<close>, then
  \<^verbatim>\<open>arm_motors\<close> before the first iteration, then the first iteration with the vehicle
  level. The mixer takes its armed branch, and the reserved channels 5 to 8 still hold the
  zero of static storage, below \<^verbatim>\<open>MOTOR_MIN\<close>.
\<close>

theorem reserved_channels_unset_when_armed_early:
  "map_option (\<lambda>s. (m5 (motors s), m6 (motors s), m7 (motors s), m8 (motors s)))
     (tick bench_platform level_spi (arm_motors init_state))
   = Some (0, 0, 0, 0)"
  by (simp add: run cong: weak_congs)

section \<open>The throttle of altitude hold\<close>

text \<open>
  The throttle that \<^verbatim>\<open>altitude_hold_controller\<close> stores: the output of the climb-rate
  controller is truncated to an \<^verbatim>\<open>int16_t\<close>, 1500 is added, the sum is stored in the
  \<^verbatim>\<open>uint16_t\<close> throttle, and only then is the throttle constrained.
\<close>

lemma constrain_motor_wrapped:
  assumes "- 31268 \<le> k" and "k < 0"
  shows "constrain_motor pf (word_of_int k) = 2000"
proof -
  have "k mod 65536 = (k + 65536) mod 65536"
    by simp
  also from assms have "\<dots> = k + 65536"
    by (intro mod_pos_pos_trivial) simp_all
  finally have "uint (word_of_int k :: 16 word) = 65536 + k"
    by (simp add: uint_word_of_int)
  with assms have "constrain_float (u16_to_float (word_of_int k)) (Fin 1000) (Fin 2000) = Fin 2000"
    by (simp add: constrain_float_def u16_to_float_def fgt_def)
  then show ?thesis
    by (simp add: constrain_motor_def MOTOR_MIN_def MOTOR_MAX_def float_to_u16_def trunc_def)
qed

lemma altitude_hold_throttle:
  assumes "MODE_ALTITUDE_HOLD \<le> flight_mode (cmd s)"
  shows "throttle (cmd (altitude_hold_controller pf s)) =
           constrain_motor pf
             (word_of_int (1500 + sint (float_to_i16 pf
                (output_pid (pid_velocity_z (altitude_hold_controller pf s))))))"
proof -
  from assms have "\<not> flight_mode (cmd s) < MODE_ALTITUDE_HOLD"
    by (simp add: not_less)
  then show ?thesis
    by (simp add: altitude_hold_controller_def constrain_motor_def update_pid_def Let_def
        split: prod.splits)
qed

text \<open>
  Whenever the climb-rate controller asks for \<open>-1501\<close> or less (and at least \<open>-32768\<close>,
  so that the cast is defined), the sum is negative, wraps around in the unsigned throttle
  and is cut to \<^verbatim>\<open>MOTOR_MAX\<close>.
\<close>

lemma altitude_hold_negative_wrap:
  assumes "MODE_ALTITUDE_HOLD \<le> flight_mode (cmd s)"
    and "output_pid (pid_velocity_z (altitude_hold_controller pf s)) = Fin r"
    and "- 32769 < r" and "r \<le> - 1501"
  shows "throttle (cmd (altitude_hold_controller pf s)) = 2000"
proof -
  from assms(3,4) have c: "- 32768 \<le> \<lceil>r\<rceil>" "\<lceil>r\<rceil> \<le> - 1501"
    by (simp_all add: le_ceiling_iff ceiling_le_iff)
  then have "sint (word_of_int \<lceil>r\<rceil> :: 16 word) = \<lceil>r\<rceil>"
    by (simp add: sint_sbintrunc' signed_take_bit_int_eq_self)
  with assms(3,4) have si: "sint (float_to_i16 pf (Fin r)) = \<lceil>r\<rceil>"
    by (simp add: float_to_i16_def trunc_def)
  from c have "- 31268 \<le> 1500 + \<lceil>r\<rceil>" "1500 + \<lceil>r\<rceil> < 0"
    by linarith+
  then have w: "constrain_motor pf (word_of_int (1500 + \<lceil>r\<rceil>)) = 2000"
    by (rule constrain_motor_wrapped)
  show ?thesis
    unfolding altitude_hold_throttle [OF assms(1)] assms(2) si by (rule w)
qed

text \<open>
  Claim C5 at the input where the program departs from it: altitude hold, 100 m above the
  target altitude, climbing at 5 m/s. The climb-rate controller asks for \<open>-1616.002\<close>;
  \<open>1500 - 1616\<close> is negative and wraps to 65420 in the unsigned throttle, which the
  constraint then cuts to \<^verbatim>\<open>MOTOR_MAX\<close>: full throttle, where the claim has
  \<^verbatim>\<open>MOTOR_MIN\<close>.
\<close>

theorem altitude_hold_wraps_to_full_throttle:
  "output_pid (pid_velocity_z (altitude_hold_controller bench_platform descent_state))
     = Fin (- (827393 / 512))
   \<and> throttle (cmd (altitude_hold_controller bench_platform descent_state)) = 2000"
  by (simp add: run descent_state_def cong: weak_congs)

section \<open>What each step leaves unchanged\<close>

lemma nav_frame_refl [simp]: "nav_frame s s"
  by (simp add: nav_frame_def)

lemma nav_frame_trans: "nav_frame s t \<Longrightarrow> nav_frame t u \<Longrightarrow> nav_frame s u"
  by (simp add: nav_frame_def)

lemma altitude_hold_controller_frame: "nav_frame s (altitude_hold_controller pf s)"
  by (simp add: nav_frame_def altitude_hold_controller_def Let_def split: prod.splits)

lemma obstacle_avoidance_frame: "nav_frame s (obstacle_avoidance pf s)"
  by (simp add: nav_frame_def obstacle_avoidance_def Let_def)

lemma position_hold_controller_frame:
  assumes "position_hold_controller pf s = Some t"
  shows "nav_frame s t"
  using assms
  by (auto simp: nav_frame_def position_hold_controller_def Let_def
      split: if_splits prod.splits Option.bind_splits)

lemma return_to_home_controller_frame:
  assumes "return_to_home_controller pf s = Some t"
  shows "nav_frame s t"
proof (cases "flight_mode (cmd s) \<noteq> MODE_RTH \<or> \<not> fix_valid (gps s)")
  case True
  with assms show ?thesis by (auto simp: return_to_home_controller_def)
next
  case False
  show ?thesis
  proof (cases "flt (get_distance_meters pf (position (gps s)) (home_position (cmd s))) (Fin 2)
                \<and> flt (altitude (baro s)) (Fin 1)")
    case True
    with False assms show ?thesis
      by (auto simp: return_to_home_controller_def Let_def nav_frame_def)
  next
    case land: False
    define s1 where "s1 = (if flt (altitude (baro s)) RTH_ALTITUDE
                       then s\<lparr>cmd := (cmd s)\<lparr>target_altitude := RTH_ALTITUDE\<rparr>\<rparr> else s)"
    define s2 where "s2 = s1\<lparr>cmd := (cmd s1)\<lparr>target_position := home_position (cmd s1)\<rparr>\<rparr>"
    have f2: "nav_frame s s2"
      by (simp add: s1_def s2_def nav_frame_def)
    from False land assms obtain s3 where s3: "position_hold_controller pf s2 = Some s3"
      and t: "t = s3 \<or> t = s3\<lparr>cmd := (cmd s3)\<lparr>target_altitude := rnd32 (5 / 10)\<rparr>\<rparr>"
      by (auto simp: return_to_home_controller_def Let_def s1_def s2_def
          split: Option.bind_splits if_splits)
    from position_hold_controller_frame [OF s3] have "nav_frame s2 t"
      using t by (auto simp: nav_frame_def)
    with f2 show ?thesis by (rule nav_frame_trans)
  qed
qed

lemma flight_mode_logic_frame:
  assumes "flight_mode_logic pf s = Some t"
  shows "nav_frame s t"
  using assms
  by (auto simp: flight_mode_logic_def split: if_splits Option.bind_splits
      intro: altitude_hold_controller_frame
        nav_frame_trans [OF return_to_home_controller_frame altitude_hold_controller_frame])

lemma navigate_frame:
  assumes "navigate pf spi s = Some t"
  shows "nav_frame (s\<lparr>imu := compute_angles pf (read_imu_data spi (imu s))\<rparr>) t"
proof -
  let ?s1 = "s\<lparr>imu := compute_angles pf (read_imu_data spi (imu s))\<rparr>"
  from assms obtain s2 s3 where s2: "flight_mode_logic pf ?s1 = Some s2"
    and s3: "s3 = s2 \<or> position_hold_controller pf s2 = Some s3"
    and t: "t = obstacle_avoidance pf s3"
    by (auto simp: navigate_def Let_def split: Option.bind_splits if_splits)
  have "nav_frame s2 s3"
    using s3 by (auto intro: position_hold_controller_frame)
  with flight_mode_logic_frame [OF s2] have "nav_frame ?s1 s3"
    by (rule nav_frame_trans)
  then show ?thesis
    unfolding t using obstacle_avoidance_frame by (rule nav_frame_trans)
qed

lemma safety_check_frame [simp]:
  "imu (safety_check s) = imu s"
  "gps (safety_check s) = gps s"
  "motors (safety_check s) = motors s"
  "pid_roll (safety_check s) = pid_roll s"
  "pid_pitch (safety_check s) = pid_pitch s"
  "pid_yaw (safety_check s) = pid_yaw s"
  "pid_pos_n (safety_check s) = pid_pos_n s"
  "pid_pos_e (safety_check s) = pid_pos_e s"
  "pid_vel_n (safety_check s) = pid_vel_n s"
  "pid_vel_e (safety_check s) = pid_vel_e s"
  by (simp_all add: safety_check_def Let_def)

lemma safety_check_armed:
  "armed (cmd (safety_check s)) \<longleftrightarrow> armed (cmd s) \<and> \<not> tilt_fault (angles (imu s))"
  by (auto simp: safety_check_def tilt_fault_def Let_def)

lemma safety_check_flight_mode:
  "flight_mode (cmd (safety_check s)) =
     (if MODE_POSITION_HOLD \<le> flight_mode (cmd s) \<and> \<not> fix_valid (gps s)
      then MODE_ALTITUDE_HOLD else flight_mode (cmd s))"
  by (auto simp: safety_check_def Let_def)

lemma stabilize_and_mix_frame [simp]:
  "cmd (stabilize_and_mix pf s) = cmd s"
  "imu (stabilize_and_mix pf s) = imu s"
  "gps (stabilize_and_mix pf s) = gps s"
  "pid_pos_n (stabilize_and_mix pf s) = pid_pos_n s"
  "pid_pos_e (stabilize_and_mix pf s) = pid_pos_e s"
  "pid_vel_n (stabilize_and_mix pf s) = pid_vel_n s"
  "pid_vel_e (stabilize_and_mix pf s) = pid_vel_e s"
  by (simp_all add: stabilize_and_mix_def Let_def split: prod.splits)

lemma disarmed_mixer_keeps_attitude_pids:
  assumes "\<not> armed (cmd s)"
  shows "pid_roll (stabilize_and_mix pf s) = pid_roll s"
    and "pid_pitch (stabilize_and_mix pf s) = pid_pitch s"
    and "pid_yaw (stabilize_and_mix pf s) = pid_yaw s"
  using assms by (simp_all add: stabilize_and_mix_def)

lemma tick_Some:
  "tick pf spi s = Some s' \<longleftrightarrow>
     (\<exists>t. navigate pf spi s = Some t \<and> s' = stabilize_and_mix pf (safety_check t))"
  by (auto simp: tick_def split: Option.bind_splits)

lemma tick_keeps_disarmed:
  assumes "tick pf spi s = Some s'" and "\<not> armed (cmd s)"
  shows "\<not> armed (cmd s')"
proof -
  from assms(1) obtain t where t: "navigate pf spi s = Some t"
    and s': "s' = stabilize_and_mix pf (safety_check t)"
    by (auto simp: tick_Some)
  from navigate_frame [OF t] assms(2) have "\<not> armed (cmd t)"
    by (simp add: nav_frame_def)
  then show ?thesis by (simp add: s' safety_check_armed)
qed

lemma api_keeps_disarmed:
  assumes "c \<noteq> Arm_motors" and "\<not> armed (cmd s)"
  shows "\<not> armed (cmd (api c s))"
  using assms by (cases c) (simp_all add: api_eval)

lemma fold_api_keeps_disarmed:
  assumes "Arm_motors \<notin> set calls" and "\<not> armed (cmd s)"
  shows "\<not> armed (cmd (fold api calls s))"
  using assms by (induction calls arbitrary: s) (auto simp: api_keeps_disarmed)

lemma api_keeps_attitude_pids:
  "pid_roll (api c s) = pid_roll s \<and> pid_pitch (api c s) = pid_pitch s
   \<and> pid_yaw (api c s) = pid_yaw s"
  by (cases c) (simp_all add: api_eval)

lemma altitude_hold_controller_keeps [simp]:
  "gps (altitude_hold_controller pf s) = gps s"
  "imu (altitude_hold_controller pf s) = imu s"
  "flight_mode (cmd (altitude_hold_controller pf s)) = flight_mode (cmd s)"
  "target_position (cmd (altitude_hold_controller pf s)) = target_position (cmd s)"
  "pid_pos_n (altitude_hold_controller pf s) = pid_pos_n s"
  "pid_pos_e (altitude_hold_controller pf s) = pid_pos_e s"
  "pid_vel_n (altitude_hold_controller pf s) = pid_vel_n s"
  "pid_vel_e (altitude_hold_controller pf s) = pid_vel_e s"
  by (simp_all add: altitude_hold_controller_def Let_def split: prod.splits)

lemma obstacle_avoidance_keeps [simp]:
  "pid_pos_n (obstacle_avoidance pf s) = pid_pos_n s"
  "pid_pos_e (obstacle_avoidance pf s) = pid_pos_e s"
  "pid_vel_n (obstacle_avoidance pf s) = pid_vel_n s"
  "pid_vel_e (obstacle_avoidance pf s) = pid_vel_e s"
  by (simp_all add: obstacle_avoidance_def Let_def)

lemma navigate_without_fix:
  assumes "\<not> fix_valid (gps s)"
  shows "\<exists>t. navigate pf spi s = Some t"
  using assms
  by (simp add: navigate_def flight_mode_logic_def return_to_home_controller_def
      position_hold_controller_def Let_def)

lemma tick_without_fix:
  assumes "\<not> fix_valid (gps s)"
  shows "\<exists>s'. tick pf spi s = Some s'"
  using navigate_without_fix [OF assms] by (auto simp: tick_Some)

lemma tick_keeps_gps:
  assumes "tick pf spi s = Some s'"
  shows "gps s' = gps s"
proof -
  from assms obtain t where t: "navigate pf spi s = Some t"
    and s': "s' = stabilize_and_mix pf (safety_check t)"
    by (auto simp: tick_Some)
  from navigate_frame [OF t] show ?thesis
    by (simp add: s' nav_frame_def)
qed

section \<open>The tilt failsafe\<close>

text \<open>
  Claim C1. If at the end of an iteration the estimated attitude has a roll or a pitch beyond
  45 degrees in magnitude, or a roll or a pitch that is NaN, then the safety monitor has
  cleared the armed flag in that iteration: the flag is false at the end of the iteration. It
  is still false at the start of the next iteration, whatever calls of the programming
  interface other than \<^verbatim>\<open>arm_motors\<close> are made in between, and the next iteration
  does not set it either: only \<^verbatim>\<open>arm_motors\<close> arms.
\<close>

theorem tilt_or_nan_disarms:
  assumes "tick pf spi s = Some s'"
    and "tilt_fault (angles (imu s'))"
    and "Arm_motors \<notin> set calls"
    and "tick pf' spi' (fold api calls s') = Some s''"
  shows "\<not> armed (cmd s') \<and> \<not> armed (cmd (fold api calls s')) \<and> \<not> armed (cmd s'')"
proof -
  from assms(1) obtain t where t: "navigate pf spi s = Some t"
    and s': "s' = stabilize_and_mix pf (safety_check t)"
    by (auto simp: tick_Some)
  from assms(2) have a: "\<not> armed (cmd s')"
    by (simp add: s' safety_check_armed)
  with assms(3) have b: "\<not> armed (cmd (fold api calls s'))"
    by (rule fold_api_keeps_disarmed)
  with assms(4) have "\<not> armed (cmd s'')"
    by (rule tick_keeps_disarmed)
  with a b show ?thesis by simp
qed

lemma rolled_80_tick:
  "map_option (\<lambda>s. roll (angles (imu s))) (tick bench_platform level_spi (rolled_state 80))
   = Some (Fin (10276045 / 2 ^ 17))"
  by (simp add: run rolled_state_def cong: weak_congs)

theorem tilt_or_nan_disarms_witness:
  "\<exists>s' s''.
     tick bench_platform level_spi (rolled_state 80) = Some s'
     \<and> tilt_fault (angles (imu s'))
     \<and> Arm_motors \<notin> set [Update_baro_data (Fin 1) (Fin 0), Set_target_altitude (Fin 2)]
     \<and> tick bench_platform level_spi
          (fold api [Update_baro_data (Fin 1) (Fin 0), Set_target_altitude (Fin 2)] s') = Some s''
     \<and> \<not> armed (cmd s')
     \<and> \<not> armed (cmd (fold api [Update_baro_data (Fin 1) (Fin 0), Set_target_altitude (Fin 2)] s'))
     \<and> \<not> armed (cmd s'')"
proof -
  let ?calls = "[Update_baro_data (Fin 1) (Fin 0), Set_target_altitude (Fin 2)]"
  from rolled_80_tick obtain s' where h1: "tick bench_platform level_spi (rolled_state 80) = Some s'"
    and r: "roll (angles (imu s')) = Fin (10276045 / 2 ^ 17)"
    by auto
  have h2: "tilt_fault (angles (imu s'))"
    by (simp add: tilt_fault_def r MAX_TILT_ANGLE_def fgt_def)
  have h3: "Arm_motors \<notin> set ?calls"
    by simp
  have "\<not> fix_valid (gps (rolled_state 80))"
    by (simp add: rolled_state_def state_eval api_eval)
  with tick_keeps_gps [OF h1] have "\<not> fix_valid (gps (fold api ?calls s'))"
    by (simp add: api_eval)
  from tick_without_fix [OF this]
  obtain s'' where h4: "tick bench_platform level_spi (fold api ?calls s') = Some s''" ..
  from tilt_or_nan_disarms [OF h1 h2 h3 h4] h1 h2 h3 h4 show ?thesis
    by blast
qed

section \<open>The GPS failsafe\<close>

text \<open>
  Claim C7. If, when the safety monitor runs, the flight mode is \<^verbatim>\<open>MODE_POSITION_HOLD\<close> or
  above and the GPS fix is not valid, then the iteration ends in \<^verbatim>\<open>MODE_ALTITUDE_HOLD\<close>.
  The demotion does not disarm: the armed flag at the end of the iteration is the flag the
  safety monitor found, cleared only if the attitude is at fault. \<open>t\<close> holds the variables
  as the safety monitor finds them.
\<close>

theorem gps_failsafe_demotes:
  assumes "navigate pf spi s = Some t"
    and "MODE_POSITION_HOLD \<le> flight_mode (cmd t)"
    and "\<not> fix_valid (gps t)"
  shows "\<exists>s'. tick pf spi s = Some s'
           \<and> flight_mode (cmd s') = MODE_ALTITUDE_HOLD
           \<and> (armed (cmd s') \<longleftrightarrow> armed (cmd t) \<and> \<not> tilt_fault (angles (imu t)))"
  using assms by (simp add: tick_Some safety_check_armed safety_check_flight_mode)

lemma no_fix_navigate:
  "map_option (\<lambda>s. (flight_mode (cmd s), fix_valid (gps s), armed (cmd s), angles (imu s)))
     (navigate bench_platform level_spi no_fix_state)
   = Some (3, False, True, zero_euler)"
  by (simp add: run no_fix_state_def cong: weak_congs)

theorem gps_failsafe_demotes_witness:
  "\<exists>t. navigate bench_platform level_spi no_fix_state = Some t
       \<and> MODE_POSITION_HOLD \<le> flight_mode (cmd t)
       \<and> \<not> fix_valid (gps t)
       \<and> (\<exists>s'. tick bench_platform level_spi no_fix_state = Some s'
              \<and> flight_mode (cmd s') = MODE_ALTITUDE_HOLD
              \<and> (armed (cmd s') \<longleftrightarrow> armed (cmd t) \<and> \<not> tilt_fault (angles (imu t))))"
proof -
  from no_fix_navigate obtain t where h1: "navigate bench_platform level_spi no_fix_state = Some t"
    and m: "flight_mode (cmd t) = 3" and h3: "\<not> fix_valid (gps t)"
    by auto
  have h2: "MODE_POSITION_HOLD \<le> flight_mode (cmd t)"
    by (simp add: m MODE_POSITION_HOLD_def)
  from gps_failsafe_demotes [OF h1 h2 h3] h1 h2 h3 show ?thesis
    by blast
qed

section \<open>Arming and the attitude controllers\<close>

text \<open>
  Claim C6 as stated fails. The mixer runs armed with a roll estimate of 10 degrees and
  accumulates a roll integral; the motors are disarmed and armed again; the roll integral
  is still there, not zero, when the first armed update after re-arming begins.
\<close>

theorem integral_survives_rearm:
  "\<not> armed (cmd (disarm_motors (stabilize_and_mix bench_platform (rolled_state 10))))
   \<and> armed (cmd (arm_motors (disarm_motors (stabilize_and_mix bench_platform (rolled_state 10)))))
   \<and> integral (pid_roll
        (arm_motors (disarm_motors (stabilize_and_mix bench_platform (rolled_state 10)))))
      = Fin (- (3355443 / 2 ^ 27))"
  by (simp add: run rolled_state_def cong: weak_congs)

text \<open>
  Claim C6, as amended. Arming does not reset the integral accumulators of the roll, pitch
  and yaw controllers: \<^verbatim>\<open>arm_motors\<close> leaves the three controllers as they are. They are
  zero after \<^verbatim>\<open>control_system_init\<close>, and neither an iteration that starts disarmed nor
  a call of the programming interface changes the three controllers. So the first armed
  update starts from the integrals that the last armed iteration left, which are zero when
  there was none.
\<close>

theorem attitude_controllers_kept_while_disarmed:
  assumes "\<not> armed (cmd s)" and "tick pf spi s = Some s'"
  shows "(pid_roll (arm_motors s) = pid_roll s \<and> pid_pitch (arm_motors s) = pid_pitch s
            \<and> pid_yaw (arm_motors s) = pid_yaw s)
         \<and> (pid_roll s' = pid_roll s \<and> pid_pitch s' = pid_pitch s \<and> pid_yaw s' = pid_yaw s)
         \<and> (pid_roll (api c s) = pid_roll s \<and> pid_pitch (api c s) = pid_pitch s
            \<and> pid_yaw (api c s) = pid_yaw s)
         \<and> (integral (pid_roll (control_system_init s0)) = Fin 0
            \<and> integral (pid_pitch (control_system_init s0)) = Fin 0
            \<and> integral (pid_yaw (control_system_init s0)) = Fin 0)"
proof -
  from assms(2) obtain t where t: "navigate pf spi s = Some t"
    and s': "s' = stabilize_and_mix pf (safety_check t)"
    by (auto simp: tick_Some)
  from navigate_frame [OF t] assms(1)
  have f: "pid_roll t = pid_roll s" "pid_pitch t = pid_pitch s" "pid_yaw t = pid_yaw s"
    and d: "\<not> armed (cmd (safety_check t))"
    by (simp_all add: nav_frame_def safety_check_armed)
  from disarmed_mixer_keeps_attitude_pids [OF d] f
  have "pid_roll s' = pid_roll s \<and> pid_pitch s' = pid_pitch s \<and> pid_yaw s' = pid_yaw s"
    by (simp add: s')
  moreover have "pid_roll (arm_motors s) = pid_roll s \<and> pid_pitch (arm_motors s) = pid_pitch s
      \<and> pid_yaw (arm_motors s) = pid_yaw s"
    by (simp add: arm_motors_def)
  moreover have "integral (pid_roll (control_system_init s0)) = Fin 0
      \<and> integral (pid_pitch (control_system_init s0)) = Fin 0
      \<and> integral (pid_yaw (control_system_init s0)) = Fin 0"
    by (simp add: control_system_init_def init_pid_def)
  ultimately show ?thesis
    using api_keeps_attitude_pids [of c s] by blast
qed

theorem attitude_controllers_kept_while_disarmed_witness:
  "\<exists>s'. \<not> armed (cmd init_state) \<and> tick bench_platform level_spi init_state = Some s'
     \<and> (pid_roll (arm_motors init_state) = pid_roll init_state
        \<and> pid_pitch (arm_motors init_state) = pid_pitch init_state
        \<and> pid_yaw (arm_motors init_state) = pid_yaw init_state)
     \<and> (pid_roll s' = pid_roll init_state \<and> pid_pitch s' = pid_pitch init_state
        \<and> pid_yaw s' = pid_yaw init_state)
     \<and> (pid_roll (api (Set_flight_mode 3) init_state) = pid_roll init_state
        \<and> pid_pitch (api (Set_flight_mode 3) init_state) = pid_pitch init_state
        \<and> pid_yaw (api (Set_flight_mode 3) init_state) = pid_yaw init_state)
     \<and> (integral (pid_roll (control_system_init boot_state)) = Fin 0
        \<and> integral (pid_pitch (control_system_init boot_state)) = Fin 0
        \<and> integral (pid_yaw (control_system_init boot_state)) = Fin 0)"
proof -
  have h1: "\<not> armed (cmd init_state)"
    by (simp add: init_state_value)
  have "\<not> fix_valid (gps init_state)"
    by (simp add: init_state_value)
  from tick_without_fix [OF this]
  obtain s' where h2: "tick bench_platform level_spi init_state = Some s'" ..
  from attitude_controllers_kept_while_disarmed
    [OF h1 h2, of "Set_flight_mode 3" boot_state] h1 h2
  show ?thesis by blast
qed

section \<open>The iteration returns\<close>

text \<open>
  The only loops inside an iteration are those of \<^verbatim>\<open>wrap_360\<close>, reached from
  \<^verbatim>\<open>get_bearing_deg\<close> with \<^verbatim>\<open>atan2f(y, x) * 180.0f / M_PI\<close>. They end when that angle is
  finite and of moderate size, or NaN. First, rounding: below \<open>2 ^ p\<close> in magnitude the
  spacing of the values of precision \<open>p\<close> is at most 1, so rounding moves a number by at most 1,
  and it keeps the sign.
\<close>

lemma bitlen_nonneg: "0 \<le> bitlen n"
proof (induction n rule: bitlen.induct)
  case (1 n)
  then show ?case
    by (subst bitlen.simps) simp
qed

lemma bitlen_le:
  assumes "n < 2 ^ k"
  shows "bitlen n \<le> int k"
  using assms
proof (induction k arbitrary: n)
  case 0
  then show ?case by (subst bitlen.simps) simp
next
  case (Suc k)
  from Suc.prems have "n div 2 < 2 ^ k"
    by simp
  from Suc.IH [OF this] show ?case
    by (subst bitlen.simps) simp
qed

lemma ilog2_le:
  assumes "0 < a" and "a < 2 ^ k"
  shows "ilog2 a \<le> int k - 1 \<or> ilog2 a \<le> 0"
proof (cases "1 \<le> a")
  case True
  from assms(2) have "\<lfloor>a\<rfloor> < 2 ^ k"
    by (simp add: floor_less_iff)
  from bitlen_le [OF this] True show ?thesis
    by (simp add: ilog2_def)
next
  case False
  then show ?thesis
    using bitlen_nonneg by (simp add: ilog2_def)
qed

lemma half_even_le: "of_int (half_even x) \<le> x + 1"
proof -
  have "of_int \<lfloor>x\<rfloor> \<le> x" by simp
  then have "of_int \<lfloor>x\<rfloor> \<le> x + 1" "of_int (\<lfloor>x\<rfloor> + 1) \<le> x + 1"
    by linarith+
  then show ?thesis
    by (simp only: half_even_def tie_even_def split: if_split) blast
qed

lemma half_even_nonneg:
  assumes "0 \<le> x"
  shows "0 \<le> half_even x"
proof -
  from assms have "0 \<le> \<lfloor>x\<rfloor>" by simp
  then show ?thesis
    by (simp add: half_even_def tie_even_def)
qed

lemma round_at_bounds:
  assumes "0 \<le> a" and "q \<le> 0"
  shows "0 \<le> round_at q a \<and> round_at q a \<le> a + 1"
proof -
  define n where "n = nat (- q)"
  from assms(2) have q: "q = - int n" by (simp add: n_def)
  have r: "round_at q a = of_int (half_even (a * 2 ^ n)) / 2 ^ n"
    by (cases "n = 0") (simp_all add: round_at_def scale2_def q)
  from assms(1) have "0 \<le> half_even (a * 2 ^ n)"
    by (intro half_even_nonneg) simp
  then have lo: "0 \<le> round_at q a"
    by (simp add: r)
  have "of_int (half_even (a * 2 ^ n)) \<le> a * 2 ^ n + 1"
    by (rule half_even_le)
  then have "of_int (half_even (a * 2 ^ n)) / 2 ^ n \<le> (a * 2 ^ n + 1) / 2 ^ n"
    by (simp add: divide_right_mono)
  also have "\<dots> = a + 1 / 2 ^ n"
    by (simp add: add_divide_distrib)
  also have "\<dots> \<le> a + 1"
    by (simp add: divide_le_eq_1)
  finally show ?thesis
    using lo by (simp add: r)
qed

lemma fround_bounded:
  assumes "\<bar>r\<bar> < 2 ^ p" and "0 < p" and "int p \<le> emax"
  shows "\<exists>y. fround p emax r = Fin y \<and> \<bar>y\<bar> \<le> \<bar>r\<bar> + 1 \<and> (0 \<le> r \<longrightarrow> 0 \<le> y)"
proof (cases "r = 0")
  case True
  then show ?thesis by (simp add: fround_def)
next
  case False
  then have a: "0 < \<bar>r\<bar>" by simp
  define q where "q = min (max (ilog2 \<bar>r\<bar>) (1 - emax)) emax - (int p - 1)"
  from ilog2_le [OF a assms(1)] assms(2,3) have "q \<le> 0"
    by (auto simp: q_def)
  with a have b: "0 \<le> round_at q \<bar>r\<bar>" "round_at q \<bar>r\<bar> \<le> \<bar>r\<bar> + 1"
    using round_at_bounds [of "\<bar>r\<bar>" q] by simp_all
  have "(2::real) ^ p + 1 \<le> 2 ^ p + 2 ^ p"
    by (simp add: one_le_power)
  also have "\<dots> = 2 ^ Suc p" by simp
  also from assms(3) have "\<dots> \<le> 2 ^ nat (emax + 1)"
    by (intro power_increasing) simp_all
  finally have "round_at q \<bar>r\<bar> < 2 ^ nat (emax + 1)"
    using b(2) assms(1) by linarith
  then show ?thesis
    using False b by (auto simp: fround_def with_overflow_def q_def)
qed

lemma rnd32_bounded:
  assumes "\<bar>r\<bar> < 2 ^ 24"
  shows "\<exists>y. rnd32 r = Fin y \<and> \<bar>y\<bar> \<le> \<bar>r\<bar> + 1 \<and> (0 \<le> r \<longrightarrow> 0 \<le> y)"
  unfolding rnd32_def using assms by (intro fround_bounded) simp_all

lemma rnd64_bounded:
  assumes "\<bar>r\<bar> < 2 ^ 53"
  shows "\<exists>y. rnd64 r = Fin y \<and> \<bar>y\<bar> \<le> \<bar>r\<bar> + 1 \<and> (0 \<le> r \<longrightarrow> 0 \<le> y)"
  unfolding rnd64_def using assms by (intro fround_bounded) simp_all

text \<open>
  The arc tangent of the C library lies between \<open>-\<pi>\<close> and \<open>\<pi>\<close>, or is NaN. For a platform
  whose \<^verbatim>\<open>atan2f\<close> is NaN or at most 4 in magnitude, the bearing is at most 300 degrees in
  magnitude before it is wrapped, \<^verbatim>\<open>wrap_360\<close> returns after at most one addition, and so
  every iteration returns.
\<close>

lemma wrap_360_returns:
  assumes "a = NaN \<or> (\<exists>z. a = Fin z \<and> \<bar>z\<bar> \<le> 300)"
  shows "\<exists>b. wrap_360 a = Some b"
  using assms
proof
  assume "a = NaN"
  then show ?thesis
    by (simp add: wrap_360_def fge_def)
next
  assume "\<exists>z. a = Fin z \<and> \<bar>z\<bar> \<le> 300"
  then obtain z where a: "a = Fin z" and z: "\<bar>z\<bar> \<le> 300"
    by blast
  from z have down: "wrap_360_down a = Some a"
    by (simp add: a fge_def)
  show ?thesis
  proof (cases "z < 0")
    case False
    with down show ?thesis
      by (simp add: wrap_360_def a)
  next
    case True
    from z have "\<bar>z + 360\<bar> < 2 ^ 24" "0 \<le> z + 360"
      by simp_all
    with rnd32_bounded [of "z + 360"] obtain y where y: "rnd32 (z + 360) = Fin y" "0 \<le> y"
      by blast
    have "wrap_360_up a = wrap_360_up (Fin y)"
      using True by (subst wrap_360_up.simps) (simp add: a y)
    also from y(2) have "\<dots> = Some (Fin y)"
      by simp
    finally show ?thesis
      using down by (simp add: wrap_360_def)
  qed
qed

lemma bearing_in_degrees:
  assumes "t = NaN \<or> (\<exists>r. t = Fin r \<and> \<bar>r\<bar> \<le> 4)"
  shows "d2f (divd (mulf t (Fin 180)) M_PI) = NaN
         \<or> (\<exists>z. d2f (divd (mulf t (Fin 180)) M_PI) = Fin z \<and> \<bar>z\<bar> \<le> 300)"
  using assms
proof
  assume "t = NaN"
  then show ?thesis by simp
next
  assume "\<exists>r. t = Fin r \<and> \<bar>r\<bar> \<le> 4"
  then obtain r where t: "t = Fin r" and r: "\<bar>r\<bar> \<le> 4"
    by blast
  from r have "\<bar>r * 180\<bar> \<le> 720"
    by (simp add: abs_mult)
  with rnd32_bounded [of "r * 180"] obtain u where u: "rnd32 (r * 180) = Fin u" "\<bar>u\<bar> \<le> 721"
    by fastforce
  have "M_PI = Fin (884279719003555 / 2 ^ 48) \<and> (3::real) \<le> 884279719003555 / 2 ^ 48"
    by (simp add: M_PI_def)
  then have "\<exists>c. M_PI = Fin c \<and> 3 \<le> c" ..
  then obtain c where mc: "M_PI = Fin c" and c: "3 \<le> c"
    by blast
  have "\<bar>u / c\<bar> = \<bar>u\<bar> / c"
    using c by simp
  also have "\<dots> \<le> 721 / 3"
    using u(2) c by (intro frac_le) simp_all
  also have "\<dots> \<le> 241"
    by simp
  finally have b: "\<bar>u / c\<bar> \<le> 241" .
  with rnd64_bounded [of "u / c"] obtain w where w: "rnd64 (u / c) = Fin w" "\<bar>w\<bar> \<le> 242"
    by fastforce
  with rnd32_bounded [of w] obtain z where z: "rnd32 w = Fin z" "\<bar>z\<bar> \<le> 243"
    by fastforce
  have "c \<noteq> 0" using c by simp
  then have "d2f (divd (mulf t (Fin 180)) M_PI) = Fin z"
    by (simp add: t u mc w z)
  with z(2) show ?thesis
    by simp
qed

lemma get_bearing_deg_returns:
  assumes "\<And>y x. atan2f pf y x = NaN \<or> (\<exists>r. atan2f pf y x = Fin r \<and> \<bar>r\<bar> \<le> 4)"
  shows "\<exists>b. get_bearing_deg pf p q = Some b"
  unfolding get_bearing_deg_def Let_def
  by (intro wrap_360_returns bearing_in_degrees assms)

lemma position_hold_controller_returns:
  assumes "\<And>y x. atan2f pf y x = NaN \<or> (\<exists>r. atan2f pf y x = Fin r \<and> \<bar>r\<bar> \<le> 4)"
  shows "\<exists>t. position_hold_controller pf s = Some t"
proof -
  from get_bearing_deg_returns [of pf "position (gps s)" "target_position (cmd s)"] assms
  obtain b where "get_bearing_deg pf (position (gps s)) (target_position (cmd s)) = Some b"
    by blast
  then show ?thesis
    by (simp add: position_hold_controller_def Let_def split: prod.split)
qed

lemma return_to_home_controller_returns:
  assumes "\<And>y x. atan2f pf y x = NaN \<or> (\<exists>r. atan2f pf y x = Fin r \<and> \<bar>r\<bar> \<le> 4)"
  shows "\<exists>t. return_to_home_controller pf s = Some t"
proof -
  have "\<exists>t. position_hold_controller pf u = Some t" for u
    using assms by (rule position_hold_controller_returns)
  then have "\<exists>t. Option.bind (position_hold_controller pf u) (\<lambda>v. Some (f v)) = Some t"
    for u and f :: "globals \<Rightarrow> globals"
    by (metis bind.bind_lunit)
  then show ?thesis
    by (simp add: return_to_home_controller_def Let_def)
qed

lemma tick_returns:
  assumes "\<And>y x. atan2f pf y x = NaN \<or> (\<exists>r. atan2f pf y x = Fin r \<and> \<bar>r\<bar> \<le> 4)"
  shows "\<exists>s'. tick pf spi s = Some s'"
proof -
  have p: "\<exists>t. position_hold_controller pf u = Some t" for u
    using assms by (rule position_hold_controller_returns)
  have r: "\<exists>t. return_to_home_controller pf u = Some t" for u
    using assms by (rule return_to_home_controller_returns)
  have "\<exists>t. flight_mode_logic pf u = Some t" for u
    using r [of u] by (auto simp: flight_mode_logic_def)
  then obtain s2
    where s2: "flight_mode_logic pf (s\<lparr>imu := compute_angles pf (read_imu_data spi (imu s))\<rparr>)
                 = Some s2"
    by blast
  from p [of s2] obtain s3 where "position_hold_controller pf s2 = Some s3"
    by blast
  with s2 show ?thesis
    by (simp add: tick_def navigate_def Let_def)
qed

lemma bench_tick_returns: "\<exists>s'. tick bench_platform spi s = Some s'"
  by (rule tick_returns) (simp add: bench_platform_def)

section \<open>The position cascade in return-to-home\<close>

lemma position_hold_controller_active:
  assumes "MODE_POSITION_HOLD \<le> flight_mode (cmd s)" and "fix_valid (gps s)"
    and "position_hold_controller pf s = Some t"
  shows "\<exists>b. get_bearing_deg pf (position (gps s)) (target_position (cmd s)) = Some b
           \<and> (pid_pos_n t, pid_vel_n t) =
               cascade_axis (error_north pf (position (gps s)) (target_position (cmd s)) b)
                 (vel_n pf (gps s)) (pid_pos_n s, pid_vel_n s)
           \<and> (pid_pos_e t, pid_vel_e t) =
               cascade_axis (error_east pf (position (gps s)) (target_position (cmd s)) b)
                 (vel_e pf (gps s)) (pid_pos_e s, pid_vel_e s)"
proof -
  from assms(1) have m: "\<not> flight_mode (cmd s) < MODE_POSITION_HOLD"
    by (simp add: not_less)
  from assms(3) m assms(2) show ?thesis
    by (auto simp: position_hold_controller_def Let_def error_north_def error_east_def
        vel_n_def vel_e_def split: Option.bind_splits prod.splits)
qed





lemma rth_state_distance:
  "get_distance_meters bench_platform (position (gps rth_state)) (home_position (cmd rth_state))
   = Fin 0"
  by (simp add: run rth_state_def cong: weak_congs)

lemma rth_state_tick:
  "map_option (\<lambda>s. integral (pid_vel_n s)) (tick bench_platform level_spi rth_state)
   = Some (Fin (- (5368709 / 2 ^ 29)))"
  by (simp add: run rth_state_def cong: weak_congs)


text \<open>
  For comparison, an iteration in \<^verbatim>\<open>MODE_POSITION_HOLD\<close> or \<^verbatim>\<open>MODE_AUTO\<close> with a valid
  fix runs the cascade once, towards the target position; and in the example, where the
  vehicle moves north at 2 m/s, the integral of the north velocity controller after one
  iteration is \<open>-0.005\<close> in position hold and \<open>-0.01\<close> in return-to-home.
\<close>

lemma position_hold_tick_updates_position_pids_once:
  assumes mode: "flight_mode (cmd s) = MODE_POSITION_HOLD \<or> flight_mode (cmd s) = MODE_AUTO"
    and valid: "fix_valid (gps s)"
    and tick: "tick pf spi s = Some s'"
  shows "\<exists>b. get_bearing_deg pf (position (gps s)) (target_position (cmd s)) = Some b
           \<and> (pid_pos_n s', pid_vel_n s') =
               cascade_axis (error_north pf (position (gps s)) (target_position (cmd s)) b)
                 (vel_n pf (gps s)) (pid_pos_n s, pid_vel_n s)
           \<and> (pid_pos_e s', pid_vel_e s') =
               cascade_axis (error_east pf (position (gps s)) (target_position (cmd s)) b)
                 (vel_e pf (gps s)) (pid_pos_e s, pid_vel_e s)"
proof -
  define s1 where "s1 = s\<lparr>imu := compute_angles pf (read_imu_data spi (imu s))\<rparr>"
  from mode have above: "MODE_POSITION_HOLD \<le> flight_mode (cmd s)"
    by (auto simp: MODE_POSITION_HOLD_def MODE_AUTO_def word_le_nat_alt)
  from tick obtain t where t: "navigate pf spi s = Some t"
    and s': "s' = stabilize_and_mix pf (safety_check t)"
    by (auto simp: tick_Some)
  from mode have s2: "flight_mode_logic pf s1 = Some (altitude_hold_controller pf s1)"
    by (auto simp: flight_mode_logic_def s1_def)
  with t above obtain s3
    where s3: "position_hold_controller pf (altitude_hold_controller pf s1) = Some s3"
      and t': "t = obstacle_avoidance pf s3"
    by (auto simp: navigate_def Let_def s1_def split: Option.bind_splits)
  have h: "MODE_POSITION_HOLD \<le> flight_mode (cmd (altitude_hold_controller pf s1))"
    "fix_valid (gps (altitude_hold_controller pf s1))"
    using above valid by (simp_all add: s1_def)
  from position_hold_controller_active [OF h s3] show ?thesis
    by (auto simp: s' t' s1_def)
qed

lemma position_hold_state_tick:
  "map_option (\<lambda>s. integral (pid_vel_n s))
     (tick bench_platform level_spi (set_flight_mode MODE_POSITION_HOLD rth_state))
   = Some (Fin (- (5368709 / 2 ^ 30)))"
  by (simp add: run rth_state_def cong: weak_congs)

section \<open>The distance between two positions\<close>

text \<open>
  What the program itself guarantees of \<^verbatim>\<open>get_distance_meters\<close> (claim C9), given facts
  about the C library. Rounding is odd, and a value of magnitude at most 1 rounds to a finite
  value.
\<close>

lemma ilog2_small:
  assumes "0 < a" and "a \<le> 1"
  shows "ilog2 a \<le> 0"
proof (cases "a = 1")
  case True
  then show ?thesis by (simp add: ilog2_def)
next
  case False
  with assms have "\<not> 1 \<le> a" by simp
  then show ?thesis
    using bitlen_nonneg by (simp add: ilog2_def)
qed

lemma round_at_small:
  assumes "0 \<le> a" and "a \<le> 1" and "q \<le> 0"
  shows "round_at q a \<le> 2"
proof (cases "q = 0")
  case True
  with assms half_even_le [of a] show ?thesis
    by (simp add: round_at_def scale2_def)
next
  case False
  with assms have q: "q < 0" by simp
  define n where "n = nat (- q)"
  have "of_int (half_even (a * 2 ^ n)) \<le> a * 2 ^ n + 1"
    by (rule half_even_le)
  then have "of_int (half_even (a * 2 ^ n)) / 2 ^ n \<le> (a * 2 ^ n + 1) / 2 ^ n"
    by (simp add: divide_right_mono)
  also have "\<dots> = a + 1 / 2 ^ n"
    by (simp add: add_divide_distrib)
  also have "\<dots> \<le> 1 + 1"
    using assms(2) by (intro add_mono) (simp_all add: divide_le_eq_1)
  finally show ?thesis
    using q by (simp add: round_at_def scale2_def n_def)
qed

lemma rnd32_small:
  assumes "\<bar>r\<bar> \<le> 1"
  shows "is_finite (rnd32 r)"
proof (cases "r = 0")
  case True
  then show ?thesis by (simp add: rnd32_def fround_def)
next
  case False
  with assms have a: "0 < \<bar>r\<bar>" "\<bar>r\<bar> \<le> 1" by simp_all
  define q where "q = min (max (ilog2 \<bar>r\<bar>) (1 - 127)) 127 - (int 24 - 1)"
  from ilog2_small [OF a] have "q \<le> 0"
    by (simp add: q_def)
  with a have "round_at q \<bar>r\<bar> \<le> 2"
    by (intro round_at_small) simp_all
  also have "(2::real) < 2 ^ 128" by simp
  finally have "\<not> 2 ^ nat (127 + 1) \<le> round_at q \<bar>r\<bar>"
    by simp
  then show ?thesis
    using False by (simp add: rnd32_def fround_def with_overflow_def q_def)
qed

lemma rnd_zero [simp]: "rnd32 0 = Fin 0" "rnd64 0 = Fin 0"
  by (simp_all add: rnd32_def rnd64_def fround_def)

lemma rnd32_one [simp]: "rnd32 1 = Fin 1"
  by (simp add: float_eval)

lemma deg2rad_zero [simp]: "d2f (deg2rad (Fin 0)) = Fin 0"
  by (simp add: deg2rad_def M_PI_def)

lemma fneg_fneg [simp]: "fneg (fneg x) = x"
  by (cases x) simp_all

lemma fround_neg: "fround p e (- r) = fneg (fround p e r)"
  by (simp add: fround_def with_overflow_def)

lemma rnd_neg: "rnd32 (- r) = fneg (rnd32 r)" "rnd64 (- r) = fneg (rnd64 r)"
  by (simp_all add: rnd32_def rnd64_def fround_neg)

lemma fadd_commute: "fadd rnd x y = fadd rnd y x"
  by (cases x; cases y) (simp_all add: add.commute)

lemma fmul_commute: "fmul rnd x y = fmul rnd y x"
  by (cases x; cases y) (auto simp: mult.commute split: option.splits if_splits)

lemma fadd_neg:
  assumes "\<And>r. rnd (- r) = fneg (rnd r)"
  shows "fadd rnd (fneg x) (fneg y) = fneg (fadd rnd x y)"
  by (cases x; cases y) (simp_all flip: assms)

lemma fsub_swap:
  assumes "\<And>r. rnd (- r) = fneg (rnd r)"
  shows "fsub rnd y x = fneg (fsub rnd x y)"
  using fadd_neg [of rnd x "fneg y"] assms by (simp add: fsub_def fadd_commute)

lemma fmul_neg_left:
  assumes "\<And>r. rnd (- r) = fneg (rnd r)"
  shows "fmul rnd (fneg x) y = fneg (fmul rnd x y)"
  by (cases x; cases y) (auto simp: signed_inf_def simp flip: assms)

lemma fmul_neg_right:
  assumes "\<And>r. rnd (- r) = fneg (rnd r)"
  shows "fmul rnd x (fneg y) = fneg (fmul rnd x y)"
  using fmul_neg_left [of rnd y x] assms by (simp add: fmul_commute)

lemma fdiv_neg_left:
  assumes "\<And>r. rnd (- r) = fneg (rnd r)"
  shows "fdiv rnd (fneg x) y = fneg (fdiv rnd x y)"
  by (cases x; cases y) (auto simp: signed_inf_def simp flip: assms)

lemma d2f_neg: "d2f (fneg x) = fneg (d2f x)"
  by (cases x) (simp_all add: rnd_neg)

lemma deg2rad_neg: "deg2rad (fneg v) = fneg (deg2rad v)"
  by (simp add: deg2rad_def fmul_neg_left rnd_neg fdiv_neg_left)

text \<open>
  The distance from a position with finite coordinates to itself is zero, on a platform
  where \<open>sin 0 = 0\<close>, \<open>\<surd>0 = 0\<close>, \<open>\<surd>1 = 1\<close>, \<open>atan2 0 1 = 0\<close> and the cosine of the latitude
  is at most 1 in magnitude.
\<close>

lemma get_distance_meters_self:
  assumes "is_finite (lat p)" and "is_finite (lon p)"
    and "sinf pf (Fin 0) = Fin 0"
    and "sqrtf pf (Fin 0) = Fin 0" and "sqrtf pf (Fin 1) = Fin 1"
    and "atan2f pf (Fin 0) (Fin 1) = Fin 0"
    and "cosf pf (d2f (deg2rad (lat p))) = Fin x" and "\<bar>x\<bar> \<le> 1"
  shows "get_distance_meters pf p p = Fin 0"
proof -
  from assms(1,2) obtain a b where ab: "lat p = Fin a" "lon p = Fin b"
    by (cases "lat p"; cases "lon p") auto
  from assms(8) have "\<bar>x\<bar> * \<bar>x\<bar> \<le> 1"
    by (intro mult_le_one) simp_all
  then have "\<bar>x * x\<bar> \<le> 1"
    by (simp only: abs_mult)
  from rnd32_small [OF this] obtain y where y: "rnd32 (x * x) = Fin y"
    by (cases "rnd32 (x * x)") auto
  from assms(7) have c: "cosf pf (d2f (deg2rad (Fin a))) = Fin x"
    by (simp add: ab)
  show ?thesis
    by (simp add: get_distance_meters_def Let_def ab fsub_def assms(3-6) c y)
qed

text \<open>
  On a platform whose sine is odd, the function returns for \<open>q\<close>, \<open>p\<close> the very value it
  returns for \<open>p\<close>, \<open>q\<close>, a NaN included. Whether that value is a number, and not
  negative, depends on the values of the library functions.
\<close>

lemma get_distance_meters_symmetric:
  assumes "\<And>x. sinf pf (fneg x) = fneg (sinf pf x)"
  shows "get_distance_meters pf q p = get_distance_meters pf p q"
proof -
  have dlat: "d2f (deg2rad (subd (lat p) (lat q))) = fneg (d2f (deg2rad (subd (lat q) (lat p))))"
    by (subst fsub_swap) (simp_all add: rnd_neg deg2rad_neg d2f_neg)
  have dlon: "d2f (deg2rad (subd (lon p) (lon q))) = fneg (d2f (deg2rad (subd (lon q) (lon p))))"
    by (subst fsub_swap) (simp_all add: rnd_neg deg2rad_neg d2f_neg)
  have c: "mulf (cosf pf (d2f (deg2rad (lat q)))) (cosf pf (d2f (deg2rad (lat p)))) =
           mulf (cosf pf (d2f (deg2rad (lat p)))) (cosf pf (d2f (deg2rad (lat q))))"
    by (rule fmul_commute)
  show ?thesis
    by (simp add: get_distance_meters_def Let_def dlat dlon c assms fdiv_neg_left
        fmul_neg_left fmul_neg_right rnd_neg)
qed

end
